theory Spec2Isabelle
  imports Main "HOL-Library.AList" "HOL-Library.Word"
begin

section \<open>Go strings\<close>

text \<open>
  A Go string is a sequence of bytes; \<^typ>\<open>string\<close> is a list of 8-bit characters, so
  indices, lengths and slices below count bytes exactly as the Go functions do.
  The definitions follow package \<^verbatim>\<open>strings\<close> of the Go standard library.
\<close>

definition byte :: "char \<Rightarrow> nat" where
  "byte c = of_char c"

definition HasPrefix :: "string \<Rightarrow> string \<Rightarrow> bool" where
  "HasPrefix s p = (take (length p) s = p)"

definition HasSuffix :: "string \<Rightarrow> string \<Rightarrow> bool" where
  "HasSuffix s p = (length p \<le> length s \<and> drop (length s - length p) s = p)"

definition TrimPrefix :: "string \<Rightarrow> string \<Rightarrow> string" where
  "TrimPrefix s p = (if HasPrefix s p then drop (length p) s else s)"

fun Index :: "string \<Rightarrow> string \<Rightarrow> nat option" where
  "Index [] sub = (if sub = [] then Some 0 else None)"
| "Index (c # cs) sub =
     (if HasPrefix (c # cs) sub then Some 0 else map_option Suc (Index cs sub))"

fun LastIndex :: "string \<Rightarrow> string \<Rightarrow> nat option" where
  "LastIndex [] sub = (if sub = [] then Some 0 else None)"
| "LastIndex (c # cs) sub =
     (case LastIndex cs sub of
        Some i \<Rightarrow> Some (Suc i)
      | None \<Rightarrow> if HasPrefix (c # cs) sub then Some 0 else None)"

definition Contains :: "string \<Rightarrow> string \<Rightarrow> bool" where
  "Contains s sub = (Index s sub \<noteq> None)"

text \<open>\<^verbatim>\<open>strings.Count(s, sep)\<close> for a separator of one byte.\<close>

definition CountByte :: "string \<Rightarrow> char \<Rightarrow> nat" where
  "CountByte s c = length (filter (\<lambda>d. d = c) s)"

definition Cut :: "string \<Rightarrow> string \<Rightarrow> string \<times> string \<times> bool" where
  "Cut s sep =
     (case Index s sep of
        Some i \<Rightarrow> (take i s, drop (i + length sep) s, True)
      | None \<Rightarrow> (s, [], False))"

definition isUpper :: "char \<Rightarrow> bool" where
  "isUpper c = (byte CHR ''A'' \<le> byte c \<and> byte c \<le> byte CHR ''Z'')"

definition isLower :: "char \<Rightarrow> bool" where
  "isLower c = (byte CHR ''a'' \<le> byte c \<and> byte c \<le> byte CHR ''z'')"

definition isDigit :: "char \<Rightarrow> bool" where
  "isDigit c = (byte CHR ''0'' \<le> byte c \<and> byte c \<le> byte CHR ''9'')"

definition ToLower :: "string \<Rightarrow> string" where
  "ToLower s = map (\<lambda>c. if isUpper c then char_of (byte c + 32) else c) s"


section \<open>Package net/url: \<^verbatim>\<open>url.Parse\<close>\<close>

text \<open>
  \<^verbatim>\<open>proxyHTTP\<close> hands an absolute redirect target to \<^verbatim>\<open>url.Parse\<close> of the Go standard
  library and reads the fields \<^verbatim>\<open>Path\<close> and \<^verbatim>\<open>RawQuery\<close> of the result. The library is
  not part of the repository; the definitions of this section follow its source
  (\<^verbatim>\<open>net/url/url.go\<close>, Go 1.21): \<^verbatim>\<open>getScheme\<close>, \<^verbatim>\<open>parse\<close>, \<^verbatim>\<open>parseAuthority\<close>,
  \<^verbatim>\<open>parseHost\<close>, \<^verbatim>\<open>validOptionalPort\<close>, \<^verbatim>\<open>validUserinfo\<close>, \<^verbatim>\<open>shouldEscape\<close>, \<^verbatim>\<open>unescape\<close>
  and \<^verbatim>\<open>setPath\<close>. Of the user information only its validity is kept, and of the
  raw (still escaped) path and fragment nothing, since no caller reads them.
\<close>

datatype url_error =
    InvalidControlCharacter
  | EmptyURL
  | MissingProtocolScheme
  | InvalidURIForRequest
  | ColonInFirstPathSegment
  | MissingBracketInHost
  | InvalidPortAfterHost string
  | InvalidUserinfo
  | EscapeError string
  | InvalidHostError string

datatype encoding =
    encodePath
  | encodePathSegment
  | encodeHost
  | encodeZone
  | encodeUserPassword
  | encodeQueryComponent
  | encodeFragment

record URL =
  Scheme :: string
  Opaque :: string
  Host :: string
  Path :: string
  RawQuery :: string
  Fragment :: string

definition emptyURL :: URL where
  "emptyURL = \<lparr>Scheme = [], Opaque = [], Host = [], Path = [], RawQuery = [], Fragment = []\<rparr>"

definition stringContainsCTLByte :: "string \<Rightarrow> bool" where
  "stringContainsCTLByte s = (\<exists>b \<in> set s. byte b < 32 \<or> byte b = 127)"

definition ishex :: "char \<Rightarrow> bool" where
  "ishex c =
     (isDigit c
      \<or> (byte CHR ''a'' \<le> byte c \<and> byte c \<le> byte CHR ''f'')
      \<or> (byte CHR ''A'' \<le> byte c \<and> byte c \<le> byte CHR ''F''))"

definition unhex :: "char \<Rightarrow> nat" where
  "unhex c =
     (if isDigit c then byte c - byte CHR ''0''
      else if byte CHR ''a'' \<le> byte c \<and> byte c \<le> byte CHR ''f'' then byte c - byte CHR ''a'' + 10
      else if byte CHR ''A'' \<le> byte c \<and> byte c \<le> byte CHR ''F'' then byte c - byte CHR ''A'' + 10
      else 0)"

text \<open>\<^verbatim>\<open>shouldEscape(c, encodeHost)\<close>: the only mode \<^verbatim>\<open>unescape\<close> asks about.\<close>

definition shouldEscapeHost :: "char \<Rightarrow> bool" where
  "shouldEscapeHost c =
     (if isLower c \<or> isUpper c \<or> isDigit c then False
      else if c \<in> set ''!$&'' \<or> c = CHR 0x27 \<or> c \<in> set ''()*+,;=:[]<>'' \<or> c = CHR 0x22 then False
      else if c \<in> set ''-_.~'' then False
      else True)"

text \<open>
  The first loop of \<^verbatim>\<open>unescape\<close>: every \<^verbatim>\<open>%\<close> is followed by two hexadecimal digits,
  and a host or zone holds only the bytes and escapes allowed there.
\<close>

fun checkEscapes :: "encoding \<Rightarrow> string \<Rightarrow> url_error option" where
  "checkEscapes mode [] = None"
| "checkEscapes mode (c # h1 # h2 # rest) =
     (if c = CHR ''%'' then
        (if \<not> ishex h1 \<or> \<not> ishex h2 then Some (EscapeError [c, h1, h2])
         else if mode = encodeHost \<and> unhex h1 < 8 \<and> [c, h1, h2] \<noteq> ''%25''
           then Some (EscapeError [c, h1, h2])
         else if mode = encodeZone \<and> [c, h1, h2] \<noteq> ''%25''
                 \<and> unhex h1 * 16 + unhex h2 \<noteq> 32
                 \<and> shouldEscapeHost (char_of (unhex h1 * 16 + unhex h2))
           then Some (EscapeError [c, h1, h2])
         else checkEscapes mode rest)
      else if (mode = encodeHost \<or> mode = encodeZone) \<and> byte c < 128 \<and> shouldEscapeHost c
        then Some (InvalidHostError [c])
      else checkEscapes mode (h1 # h2 # rest))"
| "checkEscapes mode (c # cs) =
     (if c = CHR ''%'' then Some (EscapeError (c # cs))
      else if (mode = encodeHost \<or> mode = encodeZone) \<and> byte c < 128 \<and> shouldEscapeHost c
        then Some (InvalidHostError [c])
      else checkEscapes mode cs)"

text \<open>The second loop of \<^verbatim>\<open>unescape\<close>, run on a string that passed the first.\<close>

fun decodeEscapes :: "encoding \<Rightarrow> string \<Rightarrow> string" where
  "decodeEscapes mode [] = []"
| "decodeEscapes mode (c # h1 # h2 # rest) =
     (if c = CHR ''%'' then char_of (unhex h1 * 16 + unhex h2) # decodeEscapes mode rest
      else if c = CHR ''+'' \<and> mode = encodeQueryComponent
        then CHR '' '' # decodeEscapes mode (h1 # h2 # rest)
      else c # decodeEscapes mode (h1 # h2 # rest))"
| "decodeEscapes mode (c # cs) =
     (if c = CHR ''+'' \<and> mode = encodeQueryComponent then CHR '' '' # decodeEscapes mode cs
      else c # decodeEscapes mode cs)"

definition unescape :: "string \<Rightarrow> encoding \<Rightarrow> url_error + string" where
  "unescape s mode =
     (case checkEscapes mode s of
        Some e \<Rightarrow> Inl e
      | None \<Rightarrow> Inr (decodeEscapes mode s))"

fun getSchemeAt :: "string \<Rightarrow> nat \<Rightarrow> string \<Rightarrow> url_error + (string \<times> string)" where
  "getSchemeAt rawURL i [] = Inr ([], rawURL)"
| "getSchemeAt rawURL i (c # cs) =
     (if isLower c \<or> isUpper c then getSchemeAt rawURL (Suc i) cs
      else if isDigit c \<or> c = CHR ''+'' \<or> c = CHR ''-'' \<or> c = CHR ''.'' then
        (if i = 0 then Inr ([], rawURL) else getSchemeAt rawURL (Suc i) cs)
      else if c = CHR '':'' then
        (if i = 0 then Inl MissingProtocolScheme
         else Inr (take i rawURL, drop (Suc i) rawURL))
      else Inr ([], rawURL))"

definition getScheme :: "string \<Rightarrow> url_error + (string \<times> string)" where
  "getScheme rawURL = getSchemeAt rawURL 0 rawURL"

definition validOptionalPort :: "string \<Rightarrow> bool" where
  "validOptionalPort port =
     (case port of
        [] \<Rightarrow> True
      | c # ds \<Rightarrow> c = CHR '':'' \<and> (\<forall>b \<in> set ds. isDigit b))"

definition validUserinfo :: "string \<Rightarrow> bool" where
  "validUserinfo s =
     (\<forall>r \<in> set s. isUpper r \<or> isLower r \<or> isDigit r
        \<or> r \<in> set ''-._:~!$&'' \<or> r = CHR 0x27 \<or> r \<in> set ''()*+,;=%@'')"

definition parseHost :: "string \<Rightarrow> url_error + string" where
  "parseHost host =
     (if HasPrefix host ''['' then
        (case LastIndex host '']'' of
           None \<Rightarrow> Inl MissingBracketInHost
         | Some i \<Rightarrow>
             if \<not> validOptionalPort (drop (Suc i) host)
               then Inl (InvalidPortAfterHost (drop (Suc i) host))
             else
               (case Index (take i host) ''%25'' of
                  Some zone \<Rightarrow>
                    (case unescape (take zone host) encodeHost of
                       Inl e \<Rightarrow> Inl e
                     | Inr host1 \<Rightarrow>
                         (case unescape (drop zone (take i host)) encodeZone of
                            Inl e \<Rightarrow> Inl e
                          | Inr host2 \<Rightarrow>
                              (case unescape (drop i host) encodeHost of
                                 Inl e \<Rightarrow> Inl e
                               | Inr host3 \<Rightarrow> Inr (host1 @ host2 @ host3))))
                | None \<Rightarrow> unescape host encodeHost))
      else
        (case LastIndex host '':'' of
           Some i \<Rightarrow>
             if \<not> validOptionalPort (drop i host)
               then Inl (InvalidPortAfterHost (drop i host))
             else unescape host encodeHost
         | None \<Rightarrow> unescape host encodeHost))"

text \<open>
  \<^verbatim>\<open>parseAuthority\<close>, returning the host; the user name and password are unescaped for
  their errors only.
\<close>

definition parseAuthority :: "string \<Rightarrow> url_error + string" where
  "parseAuthority authority =
     (case LastIndex authority ''@'' of
        None \<Rightarrow> parseHost authority
      | Some i \<Rightarrow>
          (case parseHost (drop (Suc i) authority) of
             Inl e \<Rightarrow> Inl e
           | Inr host \<Rightarrow>
               let userinfo = take i authority in
               if \<not> validUserinfo userinfo then Inl InvalidUserinfo
               else if \<not> Contains userinfo '':'' then
                 (case unescape userinfo encodeUserPassword of
                    Inl e \<Rightarrow> Inl e
                  | Inr u \<Rightarrow> Inr host)
               else
                 (case Cut userinfo '':'' of
                    (username, password, found) \<Rightarrow>
                      (case unescape username encodeUserPassword of
                         Inl e \<Rightarrow> Inl e
                       | Inr u \<Rightarrow>
                           (case unescape password encodeUserPassword of
                              Inl e \<Rightarrow> Inl e
                            | Inr p \<Rightarrow> Inr host)))))"

definition setPath :: "URL \<Rightarrow> string \<Rightarrow> url_error + URL" where
  "setPath u p =
     (case unescape p encodePath of
        Inl e \<Rightarrow> Inl e
      | Inr path \<Rightarrow> Inr (u\<lparr>Path := path\<rparr>))"

text \<open>
  Two steps of \<^verbatim>\<open>parse\<close>: cutting the query off (a lone trailing \<^verbatim>\<open>?\<close> only sets
  \<^verbatim>\<open>ForceQuery\<close>), and cutting the authority off what follows \<^verbatim>\<open>//\<close>.
\<close>

definition splitQuery :: "string \<Rightarrow> string \<times> string" where
  "splitQuery rest =
     (if HasSuffix rest ''?'' \<and> CountByte rest CHR ''?'' = 1
        then (take (length rest - 1) rest, [])
      else (case Cut rest ''?'' of (before, after, found) \<Rightarrow> (before, after)))"

definition splitAuthority :: "string \<Rightarrow> string \<times> string" where
  "splitAuthority rest =
     (let authority = drop 2 rest
      in case Index authority ''/'' of
           Some i \<Rightarrow> (take i authority, drop i authority)
         | None \<Rightarrow> (authority, []))"

definition parse :: "string \<Rightarrow> bool \<Rightarrow> url_error + URL" where
  "parse rawURL viaRequest =
     (if stringContainsCTLByte rawURL then Inl InvalidControlCharacter
      else if rawURL = [] \<and> viaRequest then Inl EmptyURL
      else if rawURL = ''*'' then Inr (emptyURL\<lparr>Path := ''*''\<rparr>)
      else
        (case getScheme rawURL of
           Inl e \<Rightarrow> Inl e
         | Inr (scheme, rest0) \<Rightarrow>
             (case splitQuery rest0 of
                (rest, query) \<Rightarrow>
                  (let url = emptyURL\<lparr>Scheme := ToLower scheme, RawQuery := query\<rparr>
                   in if \<not> HasPrefix rest ''/'' \<and> Scheme url \<noteq> [] then Inr (url\<lparr>Opaque := rest\<rparr>)
                      else if \<not> HasPrefix rest ''/'' \<and> viaRequest then Inl InvalidURIForRequest
                      else if \<not> HasPrefix rest ''/'' \<and> Contains (fst (Cut rest ''/'')) '':''
                        then Inl ColonInFirstPathSegment
                      else if (Scheme url \<noteq> [] \<or> (\<not> viaRequest \<and> \<not> HasPrefix rest ''///''))
                              \<and> HasPrefix rest ''//'' then
                        (case splitAuthority rest of
                           (authority, rest') \<Rightarrow>
                             (case parseAuthority authority of
                                Inl e \<Rightarrow> Inl e
                              | Inr host \<Rightarrow> setPath (url\<lparr>Host := host\<rparr>) rest'))
                      else setPath url rest))))"

definition setFragment :: "URL \<Rightarrow> string \<Rightarrow> url_error + URL" where
  "setFragment u f =
     (case unescape f encodeFragment of
        Inl e \<Rightarrow> Inl e
      | Inr frag \<Rightarrow> Inr (u\<lparr>Fragment := frag\<rparr>))"

definition Parse :: "string \<Rightarrow> url_error + URL" where
  "Parse rawURL =
     (case Cut rawURL ''#'' of
        (u, frag, found) \<Rightarrow>
          (case parse u False of
             Inl e \<Rightarrow> Inl e
           | Inr url \<Rightarrow> if frag = [] then Inr url else setFragment url frag))"


section \<open>Rewriting the Location header (\<^verbatim>\<open>proxyHTTP\<close>, response side)\<close>

text \<open>
  The body of \<^verbatim>\<open>if locationHeader != ""\<close> in \<^verbatim>\<open>proxyHTTP\<close>: the value that is then stored
  with \<^verbatim>\<open>w.Header().Set("Location", location)\<close>.
\<close>

definition rewriteLocation :: "string \<Rightarrow> string" where
  "rewriteLocation locationHeader =
     (if HasPrefix locationHeader ''/'' then ''/api/v1/extensions/pod-forward'' @ locationHeader
      else if HasPrefix locationHeader ''http://'' \<or> HasPrefix locationHeader ''https://'' then
        (case Parse locationHeader of
           Inr parsedURL \<Rightarrow>
             ''/api/v1/extensions/pod-forward'' @ Path parsedURL
               @ (if RawQuery parsedURL \<noteq> [] then ''?'' @ RawQuery parsedURL else [])
         | Inl err \<Rightarrow> locationHeader)
      else locationHeader)"


section \<open>Formatting and parsing integers\<close>

text \<open>The verb \<^verbatim>\<open>%d\<close> of package \<^verbatim>\<open>fmt\<close> applied to a Go \<^verbatim>\<open>int\<close>: decimal, with a minus sign.\<close>

definition digitChar :: "nat \<Rightarrow> char" where
  "digitChar d = ''0123456789'' ! d"

fun formatNat :: "nat \<Rightarrow> string" where
  "formatNat n =
     (if n < 10 then [digitChar n]
      else formatNat (n div 10) @ [digitChar (n mod 10)])"

declare formatNat.simps [simp del]

definition formatInt :: "int \<Rightarrow> string" where
  "formatInt i = (if i < 0 then ''-'' @ formatNat (nat (- i)) else formatNat (nat i))"

text \<open>
  \<^verbatim>\<open>strconv.Atoi\<close> on a 64-bit platform: an optional sign, then one or more decimal
  digits, and a value that fits \<^verbatim>\<open>int64\<close>. \<open>None\<close> stands for its \<^verbatim>\<open>*NumError\<close>
  (syntax or range), which the caller does not tell apart.
\<close>

definition digitsValue :: "string \<Rightarrow> int" where
  "digitsValue ds = foldl (\<lambda>n c. n * 10 + int (byte c - 48)) 0 ds"

definition Atoi :: "string \<Rightarrow> int option" where
  "Atoi s =
     (let (neg, ds) =
            (case s of
               [] \<Rightarrow> (False, [])
             | c # cs \<Rightarrow>
                 if c = CHR ''-'' then (True, cs)
                 else if c = CHR ''+'' then (False, cs)
                 else (False, s))
      in if ds = [] \<or> \<not> (\<forall>c \<in> set ds. isDigit c) then None
         else
           (let v = (if neg then - digitsValue ds else digitsValue ds)
            in if - (2 ^ 63) \<le> v \<and> v < 2 ^ 63 then Some v else None))"


section \<open>Package net/url: query values\<close>

text \<open>
  \<^verbatim>\<open>r.URL.Query()\<close> is \<^verbatim>\<open>ParseQuery(u.RawQuery)\<close> with the error dropped: pairs separated
  by \<^verbatim>\<open>&\<close>, key and value separated by the first \<^verbatim>\<open>=\<close>, both unescaped; a pair with a
  semicolon or a bad escape is skipped.
\<close>

type_synonym Values = "string \<rightharpoonup> string list"

definition QueryUnescape :: "string \<Rightarrow> url_error + string" where
  "QueryUnescape s = unescape s encodeQueryComponent"

definition addPair :: "Values \<Rightarrow> string \<Rightarrow> Values" where
  "addPair m pair =
     (if Contains pair '';'' then m
      else if pair = [] then m
      else
        (case Cut pair ''='' of
           (key0, value0, found) \<Rightarrow>
             (case QueryUnescape key0 of
                Inl e \<Rightarrow> m
              | Inr key \<Rightarrow>
                  (case QueryUnescape value0 of
                     Inl e \<Rightarrow> m
                   | Inr v \<Rightarrow>
                       m(key \<mapsto> (case m key of None \<Rightarrow> [] | Some vs \<Rightarrow> vs) @ [v])))))"

function parseQuery :: "Values \<Rightarrow> string \<Rightarrow> Values" where
  "parseQuery m query =
     (if query = [] then m
      else parseQuery (addPair m (fst (Cut query ''&''))) (fst (snd (Cut query ''&''))))"
  by pat_completeness auto
termination
  by (relation "measure (\<lambda>(m, query). length query)")
     (auto simp: Cut_def split: option.splits)

declare parseQuery.simps [simp del]

definition Query :: "URL \<Rightarrow> Values" where
  "Query u = parseQuery Map.empty (RawQuery u)"

definition Values_Get :: "Values \<Rightarrow> string \<Rightarrow> string" where
  "Values_Get v key =
     (case v key of
        None \<Rightarrow> []
      | Some [] \<Rightarrow> []
      | Some (x # xs) \<Rightarrow> x)"


section \<open>Package net/http: headers, requests, responses\<close>

text \<open>
  \<^verbatim>\<open>http.Header\<close> is a \<^verbatim>\<open>map[string][]string\<close>. It is an association list here because
  the code ranges over it: the order of the list is the order of that iteration, which Go
  leaves unspecified, and the keys are distinct. Keys are in the canonical form in which
  net/http stores the headers it has parsed (\<^verbatim>\<open>Location\<close>, \<^verbatim>\<open>Connection\<close>, ...), so the
  canonicalisation of \<^verbatim>\<open>Get\<close>, \<^verbatim>\<open>Set\<close> and \<^verbatim>\<open>Add\<close> changes no key.
\<close>

type_synonym Header = "(string \<times> string list) list"

definition Header_values :: "Header \<Rightarrow> string \<Rightarrow> string list" where
  "Header_values h key = (case map_of h key of None \<Rightarrow> [] | Some vs \<Rightarrow> vs)"

definition Header_Get :: "Header \<Rightarrow> string \<Rightarrow> string" where
  "Header_Get h key = (case Header_values h key of [] \<Rightarrow> [] | v # vs \<Rightarrow> v)"

definition Header_Set :: "Header \<Rightarrow> string \<Rightarrow> string \<Rightarrow> Header" where
  "Header_Set h key v = AList.update key [v] h"

definition Header_Add :: "Header \<Rightarrow> string \<Rightarrow> string \<Rightarrow> Header" where
  "Header_Add h key v = AList.update key (Header_values h key @ [v]) h"

record Request =
  Method :: string
  ReqURL :: URL
  ReqHeader :: Header
  ReqBody :: string

text \<open>A request as \<^verbatim>\<open>http.NewRequest\<close> builds it for the client.\<close>

record ClientRequest =
  CMethod :: string
  CURL :: URL
  CHeader :: Header
  CBody :: string

text \<open>The \<^verbatim>\<open>*http.Response\<close> of the upstream.\<close>

record HttpResponse =
  StatusCode :: int
  RHeader :: Header
  RBody :: string

text \<open>
  What a handler has written to its \<^verbatim>\<open>http.ResponseWriter\<close>: the status (200 until
  \<^verbatim>\<open>WriteHeader\<close> says otherwise), the header map and the body.
\<close>

record ResponseWriter =
  status :: int
  header :: Header
  body :: string

definition newResponseWriter :: ResponseWriter where
  "newResponseWriter = \<lparr>status = 200, header = [], body = []\<rparr>"

text \<open>\<^verbatim>\<open>http.Error\<close>: two headers, the status, and the message followed by a newline.\<close>

definition Error :: "ResponseWriter \<Rightarrow> string \<Rightarrow> int \<Rightarrow> ResponseWriter" where
  "Error w msg code =
     w\<lparr>header := Header_Set (Header_Set (header w) ''Content-Type'' ''text/plain; charset=utf-8'')
                    ''X-Content-Type-Options'' ''nosniff'',
       status := code,
       body := body w @ msg @ [CHR 10]\<rparr>"

definition NotFound :: "ResponseWriter \<Rightarrow> ResponseWriter" where
  "NotFound w = Error w ''404 page not found'' 404"

text \<open>The two accented letters of the source's messages, as their UTF-8 bytes.\<close>

definition a_acute :: string where
  "a_acute = [CHR 0xC3, CHR 0xA1]"

definition o_acute :: string where
  "o_acute = [CHR 0xC3, CHR 0xB3]"


section \<open>The world outside\<close>

text \<open>
  The collaborators that the handlers call and the repository does not contain: the
  cluster's API, the port-forward library of client-go, the HTTP client, the clock. A
  value of \<open>world\<close> fixes their answers during one request:
  \<^item> \<open>urlErrorString\<close>: the text of a library error (\<^verbatim>\<open>err.Error()\<close>);
  \<^item> \<open>clientDo\<close>: the answer of \<^verbatim>\<open>client.Do\<close>, a transport error or the upstream's response
    (redirects are not followed: \<^verbatim>\<open>CheckRedirect\<close> returns \<^verbatim>\<open>ErrUseLastResponse\<close>);
  \<^item> \<open>podsGet\<close>: the error of \<^verbatim>\<open>Pods(namespace).Get(pod)\<close>, \<open>None\<close> when the pod exists;
  \<^item> \<open>roundTripperFor\<close>: the error of \<^verbatim>\<open>spdy.RoundTripperFor\<close>;
  \<^item> \<open>portforwardNew\<close>: \<^verbatim>\<open>portforward.New\<close> on the list of port pairs, an error or the
    forwarder (its address);
  \<^item> \<open>readyAfter\<close>: the nanoseconds after which \<^verbatim>\<open>readyChan\<close> can be received from, if ever;
  \<^item> \<open>errAfter\<close>: the nanoseconds after which \<^verbatim>\<open>pf.ForwardPorts()\<close> returns and its result
    arrives on \<^verbatim>\<open>errChan\<close>, if ever, with that result (\<open>None\<close> is \<^verbatim>\<open>nil\<close>);
  \<^item> \<open>selectDraw\<close>: the pseudo-random draw of \<^verbatim>\<open>select\<close> among cases that are ready together;
  \<^item> \<open>getPorts\<close>: the two results of \<^verbatim>\<open>pf.GetPorts()\<close>;
  \<^item> \<open>nowSession\<close>, \<open>nowHandler\<close>: \<^verbatim>\<open>time.Now()\<close> as read in \<^verbatim>\<open>getOrCreateSession\<close> and in
    \<^verbatim>\<open>handlePortForward\<close>, in nanoseconds since the zero \<^verbatim>\<open>time.Time\<close>.
\<close>

record ForwardedPort =
  Local :: "16 word"
  Remote :: "16 word"

record world =
  urlErrorString :: "url_error \<Rightarrow> string"
  clientDo :: "ClientRequest \<Rightarrow> string + HttpResponse"
  podsGet :: "string \<Rightarrow> string \<Rightarrow> string option"
  roundTripperFor :: "string option"
  portforwardNew :: "string list \<Rightarrow> string + nat"
  readyAfter :: "nat option"
  errAfter :: "(nat \<times> string option) option"
  selectDraw :: nat
  getPorts :: "ForwardedPort list \<times> string option"
  nowSession :: int
  nowHandler :: int


section \<open>\<^verbatim>\<open>proxyHTTP\<close>\<close>

text \<open>Lines 310 to 321: the path sent to the pod.\<close>

definition rewritePath :: "string \<Rightarrow> string" where
  "rewritePath path =
     (if path = ''/forward'' \<or> path = ''/api/v1/extensions/pod-forward/forward'' then ''/''
      else if HasPrefix path ''/api/v1/extensions/pod-forward/'' then
        (let path' = TrimPrefix path ''/api/v1/extensions/pod-forward''
         in if path' = [] then ''/'' else path')
      else path)"

text \<open>Lines 323 to 326: the URL of the request to the pod.\<close>

definition targetURL :: "Request \<Rightarrow> int \<Rightarrow> string" where
  "targetURL r localPort =
     (let t = ''http://localhost:'' @ formatInt localPort @ rewritePath (Path (ReqURL r))
      in if RawQuery (ReqURL r) \<noteq> [] then t @ ''?'' @ RawQuery (ReqURL r) else t)"

text \<open>Lines 338 to 346: the request headers that are passed on.\<close>

definition addAll :: "string \<Rightarrow> string list \<Rightarrow> Header \<Rightarrow> Header" where
  "addAll key vals h = fold (\<lambda>v h'. Header_Add h' key v) vals h"

definition copyRequestHeaders :: "Header \<Rightarrow> Header \<Rightarrow> Header" where
  "copyRequestHeaders src dst =
     fold (\<lambda>(key, vals) h.
             if key = ''Connection'' \<or> key = ''Upgrade'' \<or> key = ''Host'' then h
             else addAll key vals h) src dst"

text \<open>Lines 392 to 401: the response headers that are passed on.\<close>

definition copyResponseHeaders :: "Header \<Rightarrow> Header \<Rightarrow> Header" where
  "copyResponseHeaders src dst =
     fold (\<lambda>(key, vals) h.
             if key = ''Connection'' \<or> key = ''Upgrade'' \<or> key = ''Location'' then h
             else addAll key vals h) src dst"

text \<open>
  \<^verbatim>\<open>http.NewRequest\<close> fails when the URL does not parse (the method of a request that the
  server has accepted is a valid token). The body is copied whole.
\<close>

definition proxyHTTP :: "world \<Rightarrow> ResponseWriter \<Rightarrow> Request \<Rightarrow> int \<Rightarrow> ResponseWriter" where
  "proxyHTTP world w r localPort =
     (case Parse (targetURL r localPort) of
        Inl err \<Rightarrow>
          Error w (''Error al crear petici'' @ o_acute @ ''n: '' @ urlErrorString world err) 500
      | Inr u \<Rightarrow>
          (let req = \<lparr>CMethod = Method r, CURL = u,
                      CHeader = copyRequestHeaders (ReqHeader r) [], CBody = ReqBody r\<rparr>
           in case clientDo world req of
                Inl err \<Rightarrow> Error w (''Error al realizar petici'' @ o_acute @ ''n: '' @ err) 502
              | Inr resp \<Rightarrow>
                  (let locationHeader = Header_Get (RHeader resp) ''Location'';
                       h = (if locationHeader \<noteq> []
                              then Header_Set (header w) ''Location'' (rewriteLocation locationHeader)
                            else header w)
                   in w\<lparr>header := copyResponseHeaders (RHeader resp) h,
                        status := StatusCode resp,
                        body := body w @ RBody resp\<rparr>)))"


section \<open>Sessions and the registry\<close>

text \<open>
  \<^verbatim>\<open>PortForwardSession\<close>. \<open>PF\<close> is the pointer to the forwarder, \<open>None\<close> for \<^verbatim>\<open>nil\<close>;
  \<open>LastUsed\<close> is a \<^verbatim>\<open>time.Time\<close>, in nanoseconds since the zero time, so that the zero
  value of the type is \<open>0\<close> and \<^verbatim>\<open>t.After(u)\<close> is \<open>u < t\<close>. The mutex and the stop channel
  hold no data that the handlers read.
\<close>

record PortForwardSession =
  Namespace :: string
  Pod :: string
  Port :: int
  LocalPort :: int
  PF :: "nat option"
  LastUsed :: int

definition After :: "int \<Rightarrow> int \<Rightarrow> bool" where
  "After t u = (u < t)"

text \<open>
  The package variables. The sessions are reached through pointers, so the registry
  holds addresses and \<open>sessions\<close> is the store of the objects; \<open>nextSession\<close> is the
  address that the next \<^verbatim>\<open>&PortForwardSession{...}\<close> yields. \<open>activeSessions\<close> is an
  association list because \<^verbatim>\<open>handlePortForward\<close> ranges over the map: its order is the
  order of that iteration. The goroutine of lines 277 to 286, which deletes the two
  entries of a session once its tunnel has ended, runs outside the functions below.
\<close>

record registry =
  sessions :: "nat \<Rightarrow> PortForwardSession"
  nextSession :: nat
  activeSessions :: "(string \<times> nat) list"
  localPortToSession :: "int \<rightharpoonup> string"

definition touch :: "registry \<Rightarrow> nat \<Rightarrow> int \<Rightarrow> registry" where
  "touch st session t =
     st\<lparr>sessions := (sessions st)(session := (sessions st session)\<lparr>LastUsed := t\<rparr>)\<rparr>"

datatype session_error =
    TargetNotFound string
  | TransportSetupFailed string
  | TunnelCreateFailed string
  | TunnelSetupFailed string
  | TunnelSetupTimeout
  | LocalPortUnavailable

text \<open>The text of each \<^verbatim>\<open>fmt.Errorf\<close> of \<^verbatim>\<open>getOrCreateSession\<close>.\<close>

fun errorString :: "session_error \<Rightarrow> string" where
  "errorString (TargetNotFound err) = ''error al obtener pod: '' @ err"
| "errorString (TransportSetupFailed err) = ''error al configurar transport: '' @ err"
| "errorString (TunnelCreateFailed err) = ''error al crear port-forward: '' @ err"
| "errorString (TunnelSetupFailed err) = ''error al iniciar port-forward: '' @ err"
| "errorString TunnelSetupTimeout = ''timeout al iniciar port-forward''"
| "errorString LocalPortUnavailable = ''error al obtener puerto local''"


section \<open>\<^verbatim>\<open>getOrCreateSession\<close>\<close>

text \<open>
  The \<^verbatim>\<open>select\<close> of lines 238 to 247 waits for the first of three events: a receive from
  \<^verbatim>\<open>readyChan\<close>, a receive from \<^verbatim>\<open>errChan\<close>, the timer of \<^verbatim>\<open>time.After(5 * time.Second)\<close>.
  It returns when the earliest of them is due, and draws among the cases due together.
\<close>

datatype select_case = ReadyCase | ErrCase "string option" | TimeoutCase

definition Second :: nat where
  "Second = 1000000000"

definition selectCandidates :: "world \<Rightarrow> (nat \<times> select_case) list" where
  "selectCandidates world =
     (case readyAfter world of None \<Rightarrow> [] | Some t \<Rightarrow> [(t, ReadyCase)])
     @ (case errAfter world of None \<Rightarrow> [] | Some (t, err) \<Rightarrow> [(t, ErrCase err)])
     @ [(5 * Second, TimeoutCase)]"

definition selectWait :: "world \<Rightarrow> nat \<times> select_case" where
  "selectWait world =
     (let cands = selectCandidates world;
          t = fold min (map fst cands) (5 * Second);
          due = filter (\<lambda>c. fst c = t) cands
      in (t, snd (due ! (selectDraw world mod length due))))"

text \<open>
  Lines 201 to 255: everything between the registry miss and the construction of the
  session, which touches no package variable. The result is the forwarder and the local port.
\<close>

definition openTunnel :: "world \<Rightarrow> string \<Rightarrow> string \<Rightarrow> int \<Rightarrow> session_error + (nat \<times> int)" where
  "openTunnel world namespace pod port =
     (case podsGet world namespace pod of
        Some err \<Rightarrow> Inl (TargetNotFound err)
      | None \<Rightarrow>
          (case roundTripperFor world of
             Some err \<Rightarrow> Inl (TransportSetupFailed err)
           | None \<Rightarrow>
               (case portforwardNew world [''0:'' @ formatInt port] of
                  Inl err \<Rightarrow> Inl (TunnelCreateFailed err)
                | Inr pf \<Rightarrow>
                    (case snd (selectWait world) of
                       ErrCase (Some err) \<Rightarrow> Inl (TunnelSetupFailed err)
                     | TimeoutCase \<Rightarrow> Inl TunnelSetupTimeout
                     | _ \<Rightarrow>
                         (case getPorts world of
                            (forwardedPorts, err) \<Rightarrow>
                              if err \<noteq> None \<or> length forwardedPorts = 0
                                then Inl LocalPortUnavailable
                              else
                                (case forwardedPorts of
                                   [] \<Rightarrow> Inl LocalPortUnavailable
                                 | p # ps \<Rightarrow> Inr (pf, uint (Local p))))))))"

text \<open>Lines 257 to 274: the new session and its two registry entries.\<close>

definition newSession :: "world \<Rightarrow> string \<Rightarrow> string \<Rightarrow> int \<Rightarrow> nat \<Rightarrow> int \<Rightarrow> PortForwardSession" where
  "newSession world namespace pod port pf localPort =
     \<lparr>Namespace = namespace, Pod = pod, Port = port, LocalPort = localPort,
      PF = Some pf, LastUsed = nowSession world\<rparr>"

definition establish ::
  "world \<Rightarrow> registry \<Rightarrow> string \<Rightarrow> string \<Rightarrow> string \<Rightarrow> int \<Rightarrow> (session_error + nat) \<times> registry" where
  "establish world st sessionKey namespace pod port =
     (case openTunnel world namespace pod port of
        Inl err \<Rightarrow> (Inl err, st)
      | Inr (pf, localPort) \<Rightarrow>
          (let session = nextSession st
           in (Inr session,
               st\<lparr>sessions := (sessions st)(session := newSession world namespace pod port pf localPort),
                  nextSession := Suc session,
                  activeSessions := AList.update sessionKey session (activeSessions st),
                  localPortToSession := (localPortToSession st)(localPort \<mapsto> sessionKey)\<rparr>)))"

definition getOrCreateSession ::
  "world \<Rightarrow> registry \<Rightarrow> string \<Rightarrow> string \<Rightarrow> string \<Rightarrow> int \<Rightarrow> (session_error + nat) \<times> registry" where
  "getOrCreateSession world st sessionKey namespace pod port =
     (case map_of (activeSessions st) sessionKey of
        Some session \<Rightarrow>
          if PF (sessions st session) \<noteq> None
            then (Inr session, touch st session (nowSession world))
          else establish world st sessionKey namespace pod port
      | None \<Rightarrow> establish world st sessionKey namespace pod port)"


section \<open>\<^verbatim>\<open>handlePortForward\<close>\<close>

text \<open>
  Lines 121 to 131: the loop over \<^verbatim>\<open>activeSessions\<close>, with its two variables
  \<^verbatim>\<open>activeSession\<close> and \<^verbatim>\<open>mostRecentTime\<close>; the latter starts as the zero time.
\<close>

fun scanSessions ::
  "(nat \<Rightarrow> PortForwardSession) \<Rightarrow> (string \<times> nat) list \<Rightarrow> nat option \<times> int \<Rightarrow> nat option \<times> int" where
  "scanSessions store [] acc = acc"
| "scanSessions store ((key, sess) # rest) (activeSession, mostRecentTime) =
     (if PF (store sess) \<noteq> None \<and> After (LastUsed (store sess)) mostRecentTime
        then scanSessions store rest (Some sess, LastUsed (store sess))
      else scanSessions store rest (activeSession, mostRecentTime))"

definition mostRecentLive :: "registry \<Rightarrow> nat option" where
  "mostRecentLive st = fst (scanSessions (sessions st) (activeSessions st) (None, 0))"

definition serveForwardPage :: "ResponseWriter \<Rightarrow> Request \<Rightarrow> ResponseWriter" where
  "serveForwardPage w r =
     w\<lparr>header := Header_Set (header w) ''Content-Type'' ''text/html; charset=utf-8'',
       body := body w
         @ ''<!DOCTYPE html>'' @ [CHR 10]
         @ ''<html>'' @ [CHR 10]
         @ ''<head>'' @ [CHR 10]
         @ ''    <title>Port Forward</title>'' @ [CHR 10]
         @ ''    <meta charset='' @ [CHR 0x22] @ ''utf-8'' @ [CHR 0x22] @ ''>'' @ [CHR 10]
         @ ''</head>'' @ [CHR 10]
         @ ''<body>'' @ [CHR 10]
         @ ''    <h1>Port Forward Activo</h1>'' @ [CHR 10]
         @ ''    <p>El port-forward est'' @ a_acute
         @ '' activo. Puedes acceder a la aplicaci'' @ o_acute
         @ ''n del pod directamente.</p>'' @ [CHR 10]
         @ ''    <p>Par'' @ a_acute @ ''metros: namespace=''
         @ Values_Get (Query (ReqURL r)) ''namespace''
         @ '', pod='' @ Values_Get (Query (ReqURL r)) ''pod''
         @ '', port='' @ Values_Get (Query (ReqURL r)) ''port'' @ ''</p>'' @ [CHR 10]
         @ ''</body>'' @ [CHR 10]
         @ ''</html>''\<rparr>"

text \<open>Lines 133 to 156: a parameter is missing.\<close>

definition handleWithoutParams ::
  "world \<Rightarrow> registry \<Rightarrow> ResponseWriter \<Rightarrow> Request \<Rightarrow> ResponseWriter \<times> registry" where
  "handleWithoutParams world st w r =
     (case mostRecentLive st of
        Some activeSession \<Rightarrow>
          (let st' = touch st activeSession (nowHandler world);
               localPort = LocalPort (sessions st' activeSession)
           in (proxyHTTP world w r localPort, st'))
      | None \<Rightarrow>
          if (Path (ReqURL r) = ''/forward''
              \<or> HasPrefix (Path (ReqURL r)) ''/api/v1/extensions/pod-forward/forward'')
             \<and> Method r = ''GET''
            then (serveForwardPage w r, st)
          else (Error w (''Faltan par'' @ a_acute
                  @ ''metros requeridos: namespace, pod, port. No hay sesi'' @ o_acute
                  @ ''n activa.'') 400, st))"

text \<open>Lines 165 to 182: the three parameters are there and the port is a number.\<close>

definition handleWithParams ::
  "world \<Rightarrow> registry \<Rightarrow> ResponseWriter \<Rightarrow> Request \<Rightarrow> string \<Rightarrow> string \<Rightarrow> int
     \<Rightarrow> ResponseWriter \<times> registry" where
  "handleWithParams world st w r namespace pod port =
     (let sessionKey = namespace @ ''/'' @ pod @ '':'' @ formatInt port
      in case getOrCreateSession world st sessionKey namespace pod port of
           (Inl err, st') \<Rightarrow>
             (Error w (''Error al crear port-forward: '' @ errorString err) 500, st')
         | (Inr session, st') \<Rightarrow>
             (let st'' = touch st' session (nowHandler world);
                  localPort = LocalPort (sessions st'' session)
              in (proxyHTTP world w r localPort, st'')))"

definition handlePortForward ::
  "world \<Rightarrow> registry \<Rightarrow> ResponseWriter \<Rightarrow> Request \<Rightarrow> ResponseWriter \<times> registry" where
  "handlePortForward world st w r =
     (let namespace = Values_Get (Query (ReqURL r)) ''namespace'';
          pod = Values_Get (Query (ReqURL r)) ''pod'';
          portStr = Values_Get (Query (ReqURL r)) ''port''
      in if namespace = [] \<or> pod = [] \<or> portStr = [] then handleWithoutParams world st w r
         else
           (case Atoi portStr of
              None \<Rightarrow> (Error w (''Puerto inv'' @ a_acute @ ''lido: '' @ portStr) 400, st)
            | Some port \<Rightarrow> handleWithParams world st w r namespace pod port))"


section \<open>The routes of \<^verbatim>\<open>main\<close>\<close>

text \<open>
  \<^verbatim>\<open>main\<close> registers four patterns: \<^verbatim>\<open>/forward\<close> and \<^verbatim>\<open>/health\<close>, which match one path
  each, the subtree \<^verbatim>\<open>/api/v1/extensions/pod-forward/\<close>, and the root \<^verbatim>\<open>/\<close>, whose handler
  receives every request that the other three do not match.
\<close>

definition matchesRoute :: "string \<Rightarrow> bool" where
  "matchesRoute path =
     (path = ''/forward'' \<or> path = ''/health''
      \<or> HasPrefix path ''/api/v1/extensions/pod-forward/'')"

text \<open>Lines 81 to 94: the handler of the root pattern.\<close>

definition rootHandler ::
  "world \<Rightarrow> registry \<Rightarrow> ResponseWriter \<Rightarrow> Request \<Rightarrow> ResponseWriter \<times> registry" where
  "rootHandler world st w r =
     (if Path (ReqURL r) = ''/'' then
        (w\<lparr>status := 200,
           body := body w @ ''Pod Forward Backend - Path: '' @ Path (ReqURL r) @ [CHR 10]\<rparr>, st)
      else if Contains (Path (ReqURL r)) ''/forward''
              \<or> HasPrefix (Path (ReqURL r)) ''/api/v1/extensions/pod-forward/''
        then handlePortForward world st w r
      else (NotFound w, st))"


section \<open>Two callers of \<^verbatim>\<open>getOrCreateSession\<close>\<close>

text \<open>
  Requests are served by goroutines that share the package variables, so two calls of
  \<^verbatim>\<open>getOrCreateSession\<close> can interleave wherever no lock is held. A call goes through these
  points; between two of them it either holds one lock or touches no shared variable:
  \<^item> \<open>AtLookup\<close>: before the lookup under \<^verbatim>\<open>sessionsMu.RLock\<close> (lines 186 to 188);
  \<^item> \<open>AtVerify\<close>: the key was found; before the test and update under the session's own
    mutex (lines 190 to 199);
  \<^item> \<open>AtEstablish\<close>: before the calls to the cluster and the construction of the session
    (lines 201 to 265), made with no lock held;
  \<^item> \<open>AtRegister\<close>: before the store into \<^verbatim>\<open>activeSessions\<close> under \<^verbatim>\<open>sessionsMu.Lock\<close>
    (lines 267 to 269);
  \<^item> \<open>AtIndex\<close>: before the store into \<^verbatim>\<open>localPortToSession\<close> under \<^verbatim>\<open>localPortMu.Lock\<close>
    (lines 272 to 274);
  \<^item> \<open>Returned\<close>: the call has returned its result.
\<close>

datatype call =
    AtLookup
  | AtVerify nat
  | AtEstablish
  | AtRegister nat
  | AtIndex nat
  | Returned "session_error + nat"

definition callStep ::
  "world \<Rightarrow> string \<Rightarrow> string \<Rightarrow> string \<Rightarrow> int \<Rightarrow> call \<times> registry \<Rightarrow> call \<times> registry" where
  "callStep world sessionKey namespace pod port cfg =
     (case cfg of
        (AtLookup, st) \<Rightarrow>
          (case map_of (activeSessions st) sessionKey of
             Some session \<Rightarrow> (AtVerify session, st)
           | None \<Rightarrow> (AtEstablish, st))
      | (AtVerify session, st) \<Rightarrow>
          if PF (sessions st session) \<noteq> None
            then (Returned (Inr session), touch st session (nowSession world))
          else (AtEstablish, st)
      | (AtEstablish, st) \<Rightarrow>
          (case openTunnel world namespace pod port of
             Inl err \<Rightarrow> (Returned (Inl err), st)
           | Inr (pf, localPort) \<Rightarrow>
               (AtRegister (nextSession st),
                st\<lparr>sessions := (sessions st)
                       (nextSession st := newSession world namespace pod port pf localPort),
                   nextSession := Suc (nextSession st)\<rparr>))
      | (AtRegister session, st) \<Rightarrow>
          (AtIndex session,
           st\<lparr>activeSessions := AList.update sessionKey session (activeSessions st)\<rparr>)
      | (AtIndex session, st) \<Rightarrow>
          (Returned (Inr session),
           st\<lparr>localPortToSession :=
                (localPortToSession st)(LocalPort (sessions st session) \<mapsto> sessionKey)\<rparr>)
      | (Returned result, st) \<Rightarrow> (Returned result, st))"




section \<open>Example inputs\<close>

text \<open>
  A world in which the pod exists, the tunnel is ready after a microsecond on local port
  40001, and the upstream answers every request with a redirect to \<^verbatim>\<open>/login\<close>; and a
  request with one header and no body.
\<close>

definition exampleWorld :: world where
  "exampleWorld =
     \<lparr>urlErrorString = (\<lambda>e. ''invalid URL''),
      clientDo = (\<lambda>req. Inr \<lparr>StatusCode = 302,
                               RHeader = [(''Location'', [''/login'']), (''Set-Cookie'', [''sid=1''])],
                               RBody = []\<rparr>),
      podsGet = (\<lambda>namespace pod. None),
      roundTripperFor = None,
      portforwardNew = (\<lambda>ports. Inr 7),
      readyAfter = Some 1000,
      errAfter = None,
      selectDraw = 0,
      getPorts = ([\<lparr>Local = 40001, Remote = 80\<rparr>], None),
      nowSession = 100,
      nowHandler = 101\<rparr>"

definition exampleRequest :: "string \<Rightarrow> string \<Rightarrow> string \<Rightarrow> Request" where
  "exampleRequest method path query =
     \<lparr>Method = method, ReqURL = emptyURL\<lparr>Path := path, RawQuery := query\<rparr>,
      ReqHeader = [(''Accept'', [''*/*''])], ReqBody = []\<rparr>"


text \<open>The same world with an upstream that sends the given Location values.\<close>

definition locationWorld :: "string list \<Rightarrow> world" where
  "locationWorld vals =
     exampleWorld\<lparr>clientDo := (\<lambda>req. Inr \<lparr>StatusCode = 302, RHeader = [(''Location'', vals)],
                                              RBody = []\<rparr>)\<rparr>"

text \<open>
  The registry at process start, and a registry holding one live session for
  \<^verbatim>\<open>ns/p:80\<close>, last used at time 100.
\<close>

definition zeroSession :: PortForwardSession where
  "zeroSession =
     \<lparr>Namespace = [], Pod = [], Port = 0, LocalPort = 0, PF = None, LastUsed = 0\<rparr>"

definition emptyRegistry :: registry where
  "emptyRegistry =
     \<lparr>sessions = (\<lambda>a. zeroSession), nextSession = 0, activeSessions = [],
      localPortToSession = Map.empty\<rparr>"

definition oneSessionRegistry :: registry where
  "oneSessionRegistry =
     \<lparr>sessions = (\<lambda>a. zeroSession)
        (0 := \<lparr>Namespace = ''ns'', Pod = ''p'', Port = 80, LocalPort = 40001, PF = Some 7,
                LastUsed = 100\<rparr>),
      nextSession = 1,
      activeSessions = [(''ns/p:80'', 0)],
      localPortToSession = [40001 \<mapsto> ''ns/p:80'']\<rparr>"


text \<open>A registry with two live sessions, last used at times 100 and 200.\<close>

definition twoSessionRegistry :: registry where
  "twoSessionRegistry =
     \<lparr>sessions = (\<lambda>a. zeroSession)
        (0 := \<lparr>Namespace = ''ns'', Pod = ''p'', Port = 80, LocalPort = 40001, PF = Some 7,
                LastUsed = 100\<rparr>,
         1 := \<lparr>Namespace = ''ns'', Pod = ''q'', Port = 8080, LocalPort = 40002, PF = Some 8,
                LastUsed = 200\<rparr>),
      nextSession = 2,
      activeSessions = [(''ns/p:80'', 0), (''ns/q:8080'', 1)],
      localPortToSession = [40001 \<mapsto> ''ns/p:80'', 40002 \<mapsto> ''ns/q:8080'']\<rparr>"


section \<open>Lemmas on strings, headers and \<^verbatim>\<open>url.Parse\<close>\<close>



lemma HasPrefix_append [simp]: "HasPrefix (p @ s) p"
  by (simp add: HasPrefix_def)


lemma map_of_Header_Add_other:
  "key \<noteq> k \<Longrightarrow> map_of (Header_Add h key v) k = map_of h k"
  by (simp add: Header_Add_def update_conv')

lemma map_of_addAll_other:
  "key \<noteq> k \<Longrightarrow> map_of (addAll key vals h) k = map_of h k"
  unfolding addAll_def
  by (induction vals arbitrary: h) (simp_all add: map_of_Header_Add_other)

lemma map_of_copyResponseHeaders_Location:
  "map_of (copyResponseHeaders src h) ''Location'' = map_of h ''Location''"
  unfolding copyResponseHeaders_def
  by (induction src arbitrary: h) (auto simp: map_of_addAll_other)

lemma proxyHTTP_Location:
  assumes "Parse (targetURL r localPort) = Inr u"
    and "clientDo world \<lparr>CMethod = Method r, CURL = u,
           CHeader = copyRequestHeaders (ReqHeader r) [], CBody = ReqBody r\<rparr> = Inr resp"
  shows "map_of (header (proxyHTTP world w r localPort)) ''Location'' =
           (if Header_Get (RHeader resp) ''Location'' \<noteq> []
              then Some [rewriteLocation (Header_Get (RHeader resp) ''Location'')]
            else map_of (header w) ''Location'')"
  using assms
  by (simp add: proxyHTTP_def Let_def map_of_copyResponseHeaders_Location Header_Set_def update_conv')



lemma HasPrefix_byte: "HasPrefix s [c] = (\<exists>t. s = c # t)"
  by (cases s) (auto simp: HasPrefix_def)

lemma Index_byte_None: "c \<notin> set s \<Longrightarrow> Index s [c] = None"
  by (induction s) (auto simp: HasPrefix_byte)

lemma Index_byte_first: "c \<notin> set a \<Longrightarrow> Index (a @ c # b) [c] = Some (length a)"
  by (induction a) (auto simp: HasPrefix_byte)

lemma Cut_byte_None: "c \<notin> set s \<Longrightarrow> Cut s [c] = (s, [], False)"
  by (simp add: Cut_def Index_byte_None)

lemma Cut_byte_first: "c \<notin> set a \<Longrightarrow> Cut (a @ c # b) [c] = (a, b, True)"
  by (simp add: Cut_def Index_byte_first)

lemma checkEscapes_no_percent:
  "CHR ''%'' \<notin> set s \<Longrightarrow> checkEscapes encodePath s = None"
  by (induction encodePath s rule: checkEscapes.induct) auto

lemma decodeEscapes_no_percent:
  "CHR ''%'' \<notin> set s \<Longrightarrow> decodeEscapes encodePath s = s"
  by (induction encodePath s rule: decodeEscapes.induct) auto

lemma setPath_no_percent:
  "CHR ''%'' \<notin> set p \<Longrightarrow> setPath u p = Inr (u\<lparr>Path := p\<rparr>)"
  by (simp add: setPath_def unescape_def checkEscapes_no_percent decodeEscapes_no_percent)

lemma getScheme_http: "getScheme (''http:'' @ rest) = Inr (''http'', rest)"
  by (simp add: getScheme_def isLower_def isUpper_def isDigit_def byte_def)

lemma getScheme_https: "getScheme (''https:'' @ rest) = Inr (''https'', rest)"
  by (simp add: getScheme_def isLower_def isUpper_def isDigit_def byte_def)

lemma ToLower_http: "ToLower ''http'' = ''http''" "ToLower ''https'' = ''https''"
  by (simp_all add: ToLower_def isUpper_def byte_def)

lemma CTL_append: "stringContainsCTLByte (a @ b) = (stringContainsCTLByte a \<or> stringContainsCTLByte b)"
  by (auto simp: stringContainsCTLByte_def)

lemma CTL_Cons: "stringContainsCTLByte (c # b) = (byte c < 32 \<or> byte c = 127 \<or> stringContainsCTLByte b)"
  by (auto simp: stringContainsCTLByte_def)

lemma CTL_Nil: "\<not> stringContainsCTLByte []"
  by (auto simp: stringContainsCTLByte_def)


lemma CountByte_zero: "(CountByte s c = 0) = (c \<notin> set s)"
  by (auto simp: CountByte_def filter_empty_conv)

lemma CountByte_append: "CountByte (a @ b) c = CountByte a c + CountByte b c"
  by (simp add: CountByte_def)

lemma CountByte_Cons: "CountByte (d # b) c = (if d = c then 1 else 0) + CountByte b c"
  by (simp add: CountByte_def)

lemma HasSuffix_byte: "HasSuffix s [c] = (s \<noteq> [] \<and> last s = c)"
proof (cases s rule: rev_cases)
  case Nil
  then show ?thesis by (simp add: HasSuffix_def)
next
  case (snoc ys y)
  then show ?thesis by (auto simp: HasSuffix_def)
qed

lemma splitQuery_none:
  assumes "CHR ''?'' \<notin> set a"
  shows "splitQuery a = (a, [])"
  using assms by (simp add: splitQuery_def CountByte_zero[THEN iffD2] Cut_byte_None)

lemma splitQuery_some:
  assumes "CHR ''?'' \<notin> set a" and "q \<noteq> []"
  shows "splitQuery (a @ ''?'' @ q) = (a, q)"
proof -
  have c: "CountByte (a @ ''?'' @ q) CHR ''?'' = Suc (CountByte q CHR ''?'')"
    using assms by (simp add: CountByte_append CountByte_Cons CountByte_zero[THEN iffD2])
  have "\<not> (HasSuffix (a @ ''?'' @ q) ''?'' \<and> CountByte q CHR ''?'' = 0)"
  proof
    assume h: "HasSuffix (a @ ''?'' @ q) ''?'' \<and> CountByte q CHR ''?'' = 0"
    with assms have "last q = CHR ''?''" by (simp add: HasSuffix_byte)
    with assms have "CHR ''?'' \<in> set q" using last_in_set by metis
    with h show False by (simp add: CountByte_zero)
  qed
  with c assms show ?thesis
    unfolding splitQuery_def by (auto simp: Cut_byte_first)
qed

lemma splitQuery_url:
  assumes "CHR ''?'' \<notin> set a"
  shows "splitQuery (a @ (if q = [] then [] else ''?'' @ q)) = (a, q)"
  using splitQuery_none[OF assms] splitQuery_some[OF assms, of q] by simp

lemma splitAuthority_url:
  assumes "CHR ''/'' \<notin> set authority" and "path = [] \<or> (\<exists>t. path = CHR ''/'' # t)"
  shows "splitAuthority (''//'' @ authority @ path) = (authority, path)"
  using assms by (auto simp: splitAuthority_def Index_byte_None Index_byte_first)

lemma parse_http_url:
  assumes scheme: "scheme = ''http'' \<or> scheme = ''https''"
    and auth: "CHR ''/'' \<notin> set authority" "CHR ''?'' \<notin> set authority"
    and host: "parseAuthority authority = Inr host"
    and path: "path = [] \<or> (\<exists>t. path = CHR ''/'' # t)" "CHR ''?'' \<notin> set path" "CHR ''%'' \<notin> set path"
    and ctl: "\<not> stringContainsCTLByte (authority @ path @ query)"
  shows "parse (scheme @ ''://'' @ authority @ path @ (if query = [] then [] else ''?'' @ query)) False
         = Inr \<lparr>Scheme = scheme, Opaque = [], Host = host, Path = path, RawQuery = query, Fragment = []\<rparr>"
proof -
  define rest where "rest = ''//'' @ authority @ path"
  define rest0 where "rest0 = rest @ (if query = [] then [] else ''?'' @ query)"
  define raw where "raw = scheme @ '':'' @ rest0"
  have raw: "scheme @ ''://'' @ authority @ path @ (if query = [] then [] else ''?'' @ query) = raw"
    by (simp add: raw_def rest0_def rest_def)
  have nctl: "\<not> stringContainsCTLByte raw"
    using ctl scheme by (auto simp: raw_def rest0_def rest_def CTL_append CTL_Cons CTL_Nil byte_def)
  have nstar: "raw \<noteq> ''*''" using scheme by (auto simp: raw_def)
  have gs: "getScheme raw = Inr (scheme, rest0)"
    using scheme getScheme_http[of rest0] getScheme_https[of rest0] by (auto simp: raw_def)
  have tl: "ToLower scheme = scheme" using scheme ToLower_http by auto
  have nq: "CHR ''?'' \<notin> set rest" using auth path by (simp add: rest_def)
  have sq: "splitQuery rest0 = (rest, query)"
    unfolding rest0_def by (rule splitQuery_url[OF nq])
  have sa: "splitAuthority rest = (authority, path)"
    unfolding rest_def by (rule splitAuthority_url[OF auth(1) path(1)])
  have sne: "scheme \<noteq> []" using scheme by auto
  have hp: "HasPrefix rest ''/''" "HasPrefix rest ''//''"
    by (simp_all add: rest_def HasPrefix_def)
  show ?thesis
    unfolding raw parse_def
    using nctl nstar sne hp
    by (simp add: gs sq sa tl Let_def host setPath_no_percent[OF path(3)] emptyURL_def)
qed

lemma Parse_http_url:
  assumes scheme: "scheme = ''http'' \<or> scheme = ''https''"
    and auth: "CHR ''/'' \<notin> set authority" "CHR ''?'' \<notin> set authority" "CHR ''#'' \<notin> set authority"
    and host: "parseAuthority authority = Inr host"
    and path: "path = [] \<or> (\<exists>t. path = CHR ''/'' # t)" "CHR ''?'' \<notin> set path"
              "CHR ''%'' \<notin> set path" "CHR ''#'' \<notin> set path"
    and query: "CHR ''#'' \<notin> set query"
    and ctl: "\<not> stringContainsCTLByte (authority @ path @ query)"
  shows "Parse (scheme @ ''://'' @ authority @ path @ (if query = [] then [] else ''?'' @ query))
         = Inr \<lparr>Scheme = scheme, Opaque = [], Host = host, Path = path, RawQuery = query, Fragment = []\<rparr>"
proof -
  let ?raw = "scheme @ ''://'' @ authority @ path @ (if query = [] then [] else ''?'' @ query)"
  have "CHR ''#'' \<notin> set ?raw" using scheme auth path query by auto
  then have "Cut ?raw ''#'' = (?raw, [], False)" by (rule Cut_byte_None)
  then show ?thesis
    unfolding Parse_def
    by (simp only: prod.case parse_http_url[OF scheme auth(1,2) host path(1,2,3) ctl] sum.case) simp
qed

lemma rewriteLocation_http_url:
  assumes scheme: "scheme = ''http'' \<or> scheme = ''https''"
    and auth: "CHR ''/'' \<notin> set authority" "CHR ''?'' \<notin> set authority" "CHR ''#'' \<notin> set authority"
    and host: "parseAuthority authority = Inr host"
    and path: "path = [] \<or> (\<exists>t. path = CHR ''/'' # t)" "CHR ''?'' \<notin> set path"
              "CHR ''%'' \<notin> set path" "CHR ''#'' \<notin> set path"
    and query: "CHR ''#'' \<notin> set query"
    and ctl: "\<not> stringContainsCTLByte (authority @ path @ query)"
  shows "rewriteLocation (scheme @ ''://'' @ authority @ path @ (if query = [] then [] else ''?'' @ query))
         = ''/api/v1/extensions/pod-forward'' @ path @ (if query = [] then [] else ''?'' @ query)"
proof -
  let ?raw = "scheme @ ''://'' @ authority @ path @ (if query = [] then [] else ''?'' @ query)"
  have p: "\<not> HasPrefix ?raw ''/''" "HasPrefix ?raw ''http://'' \<or> HasPrefix ?raw ''https://''"
    using scheme by (auto simp: HasPrefix_def)
  show ?thesis
    unfolding rewriteLocation_def
    using p by (simp only: if_False if_True Parse_http_url[OF assms] sum.case) simp
qed



lemma HasPrefix_Cons: "HasPrefix s (c # p) = (\<exists>t. s = c # t \<and> HasPrefix t p)"
  by (cases s) (auto simp: HasPrefix_def)

lemma HasPrefix_Nil [simp]: "HasPrefix s []"
  by (simp add: HasPrefix_def)


section \<open>The Location header of a proxied response\<close>

text \<open>
  Claim C1. When the upstream's response carries a (non-empty) Location value, the
  proxied response carries the rewritten value. A value that starts with \<^verbatim>\<open>/\<close> gets
  \<^verbatim>\<open>/api/v1/extensions/pod-forward\<close> in front. A value that starts with \<^verbatim>\<open>http://\<close> or
  \<^verbatim>\<open>https://\<close> and that \<^verbatim>\<open>url.Parse\<close> accepts becomes the prefix, the parsed path and, when
  there is one, \<^verbatim>\<open>?\<close> and the raw query: for a URL written as scheme, authority, a path
  without escapes and a query, that is the prefix followed by exactly that path and query,
  the scheme and the authority being dropped. The two examples of the specification
  are instances.
\<close>

theorem location_rewritten:
  "(HasPrefix loc ''/'' \<longrightarrow> rewriteLocation loc = ''/api/v1/extensions/pod-forward'' @ loc)
   \<and> ((HasPrefix loc ''http://'' \<or> HasPrefix loc ''https://'') \<and> Parse loc = Inr u \<longrightarrow>
        rewriteLocation loc =
          ''/api/v1/extensions/pod-forward'' @ Path u
            @ (if RawQuery u = [] then [] else ''?'' @ RawQuery u))
   \<and> ((scheme = ''http'' \<or> scheme = ''https'')
        \<and> CHR ''/'' \<notin> set authority \<and> CHR ''?'' \<notin> set authority \<and> CHR ''#'' \<notin> set authority
        \<and> parseAuthority authority = Inr host
        \<and> (path = [] \<or> (\<exists>t. path = CHR ''/'' # t))
        \<and> CHR ''?'' \<notin> set path \<and> CHR ''%'' \<notin> set path \<and> CHR ''#'' \<notin> set path
        \<and> CHR ''#'' \<notin> set query
        \<and> \<not> stringContainsCTLByte (authority @ path @ query) \<longrightarrow>
        rewriteLocation (scheme @ ''://'' @ authority @ path
                           @ (if query = [] then [] else ''?'' @ query)) =
          ''/api/v1/extensions/pod-forward'' @ path @ (if query = [] then [] else ''?'' @ query))
   \<and> rewriteLocation ''/login'' = ''/api/v1/extensions/pod-forward/login''
   \<and> rewriteLocation ''http://localhost:9999/callback?x=1'' =
        ''/api/v1/extensions/pod-forward/callback?x=1''
   \<and> (Parse (targetURL r localPort) = Inr t
        \<and> clientDo world \<lparr>CMethod = Method r, CURL = t,
             CHeader = copyRequestHeaders (ReqHeader r) [], CBody = ReqBody r\<rparr> = Inr resp
        \<and> Header_Get (RHeader resp) ''Location'' = loc \<and> loc \<noteq> [] \<longrightarrow>
        map_of (header (proxyHTTP world w r localPort)) ''Location'' = Some [rewriteLocation loc])"
proof (intro conjI impI)
  assume "HasPrefix loc ''/''"
  then show "rewriteLocation loc = ''/api/v1/extensions/pod-forward'' @ loc"
    by (simp add: rewriteLocation_def)
next
  assume a: "(HasPrefix loc ''http://'' \<or> HasPrefix loc ''https://'') \<and> Parse loc = Inr u"
  then have "\<not> HasPrefix loc ''/''" by (auto simp: HasPrefix_Cons)
  with a show "rewriteLocation loc =
          ''/api/v1/extensions/pod-forward'' @ Path u
            @ (if RawQuery u = [] then [] else ''?'' @ RawQuery u)"
    by (simp add: rewriteLocation_def)
next
  assume "(scheme = ''http'' \<or> scheme = ''https'')
        \<and> CHR ''/'' \<notin> set authority \<and> CHR ''?'' \<notin> set authority \<and> CHR ''#'' \<notin> set authority
        \<and> parseAuthority authority = Inr host
        \<and> (path = [] \<or> (\<exists>t. path = CHR ''/'' # t))
        \<and> CHR ''?'' \<notin> set path \<and> CHR ''%'' \<notin> set path \<and> CHR ''#'' \<notin> set path
        \<and> CHR ''#'' \<notin> set query
        \<and> \<not> stringContainsCTLByte (authority @ path @ query)"
  then show "rewriteLocation (scheme @ ''://'' @ authority @ path
                           @ (if query = [] then [] else ''?'' @ query)) =
          ''/api/v1/extensions/pod-forward'' @ path @ (if query = [] then [] else ''?'' @ query)"
    by (intro rewriteLocation_http_url) blast+
next
  show "rewriteLocation ''/login'' = ''/api/v1/extensions/pod-forward/login''"
    by (simp add: rewriteLocation_def HasPrefix_def)
next
  show "rewriteLocation ''http://localhost:9999/callback?x=1'' =
        ''/api/v1/extensions/pod-forward/callback?x=1''"
    by code_simp
next
  assume "Parse (targetURL r localPort) = Inr t
        \<and> clientDo world \<lparr>CMethod = Method r, CURL = t,
             CHeader = copyRequestHeaders (ReqHeader r) [], CBody = ReqBody r\<rparr> = Inr resp
        \<and> Header_Get (RHeader resp) ''Location'' = loc \<and> loc \<noteq> []"
  then show "map_of (header (proxyHTTP world w r localPort)) ''Location'' = Some [rewriteLocation loc]"
    using proxyHTTP_Location[of r localPort t world resp w] by simp
qed

theorem location_rewritten_witness:
  "rewriteLocation ''/d/home'' = ''/api/v1/extensions/pod-forward/d/home''
   \<and> rewriteLocation ''https://grafana.local:3000/login?next=a'' =
        ''/api/v1/extensions/pod-forward/login?next=a''
   \<and> rewriteLocation ''https://grafana.local/a%20b'' = ''/api/v1/extensions/pod-forward/a b''
   \<and> map_of (header (proxyHTTP exampleWorld newResponseWriter
                        (exampleRequest ''GET'' ''/forward'' []) 40001)) ''Location''
        = Some [''/api/v1/extensions/pod-forward/login'']"
proof -
  have h1: "HasPrefix ''/d/home'' ''/''" by (simp add: HasPrefix_def)
  have a: "parseAuthority ''grafana.local:3000'' = Inr ''grafana.local:3000''" by code_simp
  have c: "\<not> stringContainsCTLByte (''grafana.local:3000'' @ ''/login'' @ ''next=a'')" by code_simp
  have p: "Parse ''https://grafana.local/a%20b''
           = Inr \<lparr>Scheme = ''https'', Opaque = [], Host = ''grafana.local'', Path = ''/a b'',
                  RawQuery = [], Fragment = []\<rparr>" by code_simp
  have hp: "HasPrefix ''https://grafana.local/a%20b'' ''https://''" by (simp add: HasPrefix_def)
  have u: "targetURL (exampleRequest ''GET'' ''/forward'' []) 40001 = ''http://localhost:40001/''"
    by (simp add: targetURL_def exampleRequest_def emptyURL_def rewritePath_def formatInt_def
          formatNat.simps digitChar_def)
  have "Parse ''http://localhost:40001/''
           = Inr \<lparr>Scheme = ''http'', Opaque = [], Host = ''localhost:40001'', Path = ''/'',
                  RawQuery = [], Fragment = []\<rparr>" by code_simp
  with u have t: "Parse (targetURL (exampleRequest ''GET'' ''/forward'' []) 40001)
           = Inr \<lparr>Scheme = ''http'', Opaque = [], Host = ''localhost:40001'', Path = ''/'',
                  RawQuery = [], Fragment = []\<rparr>" by simp
  have d: "clientDo exampleWorld
             \<lparr>CMethod = Method (exampleRequest ''GET'' ''/forward'' []),
              CURL = \<lparr>Scheme = ''http'', Opaque = [], Host = ''localhost:40001'', Path = ''/'',
                       RawQuery = [], Fragment = []\<rparr>,
              CHeader = copyRequestHeaders (ReqHeader (exampleRequest ''GET'' ''/forward'' [])) [],
              CBody = ReqBody (exampleRequest ''GET'' ''/forward'' [])\<rparr>
           = Inr \<lparr>StatusCode = 302,
                  RHeader = [(''Location'', [''/login'']), (''Set-Cookie'', [''sid=1''])],
                  RBody = []\<rparr>"
    by (simp add: exampleWorld_def)
  have g: "Header_Get [(''Location'', [''/login'']), (''Set-Cookie'', [''sid=1''])] ''Location'' = ''/login''"
    by (simp add: Header_Get_def Header_values_def)
  have l: "rewriteLocation ''/login'' = ''/api/v1/extensions/pod-forward/login''"
    by (simp add: rewriteLocation_def HasPrefix_def)
  show ?thesis
    using location_rewritten[of "''/d/home''" undefined "''https''" "''grafana.local:3000''"
             "''grafana.local:3000''" "''/login''" "''next=a''"] h1 a c
          location_rewritten[of "''https://grafana.local/a%20b''"
             "\<lparr>Scheme = ''https'', Opaque = [], Host = ''grafana.local'', Path = ''/a b'',
                  RawQuery = [], Fragment = []\<rparr>"] p hp
          location_rewritten[of "''/login''" _ _ _ _ _ _ "exampleRequest ''GET'' ''/forward'' []" 40001
             "\<lparr>Scheme = ''http'', Opaque = [], Host = ''localhost:40001'', Path = ''/'',
                  RawQuery = [], Fragment = []\<rparr>" exampleWorld
             "\<lparr>StatusCode = 302,
                  RHeader = [(''Location'', [''/login'']), (''Set-Cookie'', [''sid=1''])],
                  RBody = []\<rparr>" newResponseWriter] t d g l
    by simp
qed


section \<open>The request sent to the pod\<close>



section \<open>Location values that are not rewritten\<close>

text \<open>
  Claim C10, as stated, fails for an empty Location value. The empty string starts
  neither with \<^verbatim>\<open>/\<close> nor with \<^verbatim>\<open>http://\<close> or \<^verbatim>\<open>https://\<close>, and an upstream can send it; but
  \<^verbatim>\<open>Header.Get\<close> returns the empty string for it as for a missing header, the guard
  \<^verbatim>\<open>locationHeader != ""\<close> skips the \<^verbatim>\<open>Set\<close>, and the copying loop leaves every Location
  value out. The proxied response then carries no Location header at all, also when a
  second, non-empty value follows the empty one.
\<close>

theorem location_empty_dropped:
  "\<not> HasPrefix [] ''/'' \<and> \<not> HasPrefix [] ''http://'' \<and> \<not> HasPrefix [] ''https://''
   \<and> Header_values (RHeader \<lparr>StatusCode = 302, RHeader = [(''Location'', [[]])], RBody = []\<rparr>)
        ''Location'' = [[]]
   \<and> map_of (header (proxyHTTP (locationWorld [[]]) newResponseWriter
                        (exampleRequest ''GET'' ''/forward'' []) 40001)) ''Location'' = None
   \<and> map_of (header (proxyHTTP (locationWorld [[], ''login'']) newResponseWriter
                        (exampleRequest ''GET'' ''/forward'' []) 40001)) ''Location'' = None"
proof -
  have u: "targetURL (exampleRequest ''GET'' ''/forward'' []) 40001 = ''http://localhost:40001/''"
    by (simp add: targetURL_def exampleRequest_def emptyURL_def rewritePath_def formatInt_def
          formatNat.simps digitChar_def)
  have "Parse ''http://localhost:40001/''
           = Inr \<lparr>Scheme = ''http'', Opaque = [], Host = ''localhost:40001'', Path = ''/'',
                  RawQuery = [], Fragment = []\<rparr>" by code_simp
  with u have t: "Parse (targetURL (exampleRequest ''GET'' ''/forward'' []) 40001)
           = Inr \<lparr>Scheme = ''http'', Opaque = [], Host = ''localhost:40001'', Path = ''/'',
                  RawQuery = [], Fragment = []\<rparr>" by simp
  show ?thesis
    by (simp add: proxyHTTP_Location[OF t] locationWorld_def exampleWorld_def Header_Get_def
          Header_values_def newResponseWriter_def HasPrefix_def)
qed

text \<open>
  Claim C10, amended. Only the first Location value of the upstream's response is read.
  When it is not empty, the proxied response carries exactly one Location value, the
  rewriting of that first value; and the rewriting leaves a value unchanged when it
  starts neither with \<^verbatim>\<open>/\<close> nor with \<^verbatim>\<open>http://\<close> or \<^verbatim>\<open>https://\<close>, or when it starts with one of
  the two schemes and \<^verbatim>\<open>url.Parse\<close> rejects it. When the first value is empty, the
  handler sets no Location header.
\<close>

theorem location_other_forwarded:
  "(\<not> HasPrefix loc ''/'' \<and> \<not> HasPrefix loc ''http://'' \<and> \<not> HasPrefix loc ''https://''
      \<longrightarrow> rewriteLocation loc = loc)
   \<and> ((HasPrefix loc ''http://'' \<or> HasPrefix loc ''https://'') \<and> Parse loc = Inl e
      \<longrightarrow> rewriteLocation loc = loc)
   \<and> (Parse (targetURL r localPort) = Inr t
        \<and> clientDo world \<lparr>CMethod = Method r, CURL = t,
             CHeader = copyRequestHeaders (ReqHeader r) [], CBody = ReqBody r\<rparr> = Inr resp
        \<and> Header_values (RHeader resp) ''Location'' = v # vs \<longrightarrow>
        map_of (header (proxyHTTP world w r localPort)) ''Location'' =
          (if v \<noteq> [] then Some [rewriteLocation v] else map_of (header w) ''Location''))"
proof (intro conjI impI)
  assume "\<not> HasPrefix loc ''/'' \<and> \<not> HasPrefix loc ''http://'' \<and> \<not> HasPrefix loc ''https://''"
  then show "rewriteLocation loc = loc" by (simp add: rewriteLocation_def)
next
  assume a: "(HasPrefix loc ''http://'' \<or> HasPrefix loc ''https://'') \<and> Parse loc = Inl e"
  then have "\<not> HasPrefix loc ''/''" by (auto simp: HasPrefix_Cons)
  with a show "rewriteLocation loc = loc" by (simp add: rewriteLocation_def)
next
  assume a: "Parse (targetURL r localPort) = Inr t
        \<and> clientDo world \<lparr>CMethod = Method r, CURL = t,
             CHeader = copyRequestHeaders (ReqHeader r) [], CBody = ReqBody r\<rparr> = Inr resp
        \<and> Header_values (RHeader resp) ''Location'' = v # vs"
  then have g: "Header_Get (RHeader resp) ''Location'' = v" by (simp add: Header_Get_def)
  from a show "map_of (header (proxyHTTP world w r localPort)) ''Location'' =
          (if v \<noteq> [] then Some [rewriteLocation v] else map_of (header w) ''Location'')"
    using proxyHTTP_Location[of r localPort t world resp w] g by simp
qed

theorem location_other_forwarded_witness:
  "rewriteLocation ''login'' = ''login''
   \<and> rewriteLocation ''ftp://files.local/x'' = ''ftp://files.local/x''
   \<and> rewriteLocation ''http://bad host/x'' = ''http://bad host/x''
   \<and> map_of (header (proxyHTTP (locationWorld [''login'', ''/other'']) newResponseWriter
                        (exampleRequest ''GET'' ''/forward'' []) 40001)) ''Location''
        = Some [''login'']"
proof -
  have u: "targetURL (exampleRequest ''GET'' ''/forward'' []) 40001 = ''http://localhost:40001/''"
    by (simp add: targetURL_def exampleRequest_def emptyURL_def rewritePath_def formatInt_def
          formatNat.simps digitChar_def)
  have "Parse ''http://localhost:40001/''
           = Inr \<lparr>Scheme = ''http'', Opaque = [], Host = ''localhost:40001'', Path = ''/'',
                  RawQuery = [], Fragment = []\<rparr>" by code_simp
  with u have t: "Parse (targetURL (exampleRequest ''GET'' ''/forward'' []) 40001)
           = Inr \<lparr>Scheme = ''http'', Opaque = [], Host = ''localhost:40001'', Path = ''/'',
                  RawQuery = [], Fragment = []\<rparr>" by simp
  have b: "Parse ''http://bad host/x'' = Inl (InvalidHostError '' '')" by code_simp
  have h: "\<not> HasPrefix ''login'' ''/'' \<and> \<not> HasPrefix ''login'' ''http://'' \<and> \<not> HasPrefix ''login'' ''https://''"
          "\<not> HasPrefix ''ftp://files.local/x'' ''/'' \<and> \<not> HasPrefix ''ftp://files.local/x'' ''http://''
             \<and> \<not> HasPrefix ''ftp://files.local/x'' ''https://''"
          "HasPrefix ''http://bad host/x'' ''http://''"
    by (simp_all add: HasPrefix_def)
  have d: "clientDo (locationWorld [''login'', ''/other''])
             \<lparr>CMethod = Method (exampleRequest ''GET'' ''/forward'' []),
              CURL = \<lparr>Scheme = ''http'', Opaque = [], Host = ''localhost:40001'', Path = ''/'',
                       RawQuery = [], Fragment = []\<rparr>,
              CHeader = copyRequestHeaders (ReqHeader (exampleRequest ''GET'' ''/forward'' [])) [],
              CBody = ReqBody (exampleRequest ''GET'' ''/forward'' [])\<rparr>
           = Inr \<lparr>StatusCode = 302, RHeader = [(''Location'', [''login'', ''/other''])], RBody = []\<rparr>"
    by (simp add: locationWorld_def)
  have v: "Header_values [(''Location'', [''login'', ''/other''])] ''Location'' = [''login'', ''/other'']"
    by (simp add: Header_values_def)
  show ?thesis
    using location_other_forwarded[where loc = "''login''"
            and r = "exampleRequest ''GET'' ''/forward'' []" and localPort = 40001
            and t = "\<lparr>Scheme = ''http'', Opaque = [], Host = ''localhost:40001'', Path = ''/'',
                  RawQuery = [], Fragment = []\<rparr>"
            and world = "locationWorld [''login'', ''/other'']"
            and resp = "\<lparr>StatusCode = 302, RHeader = [(''Location'', [''login'', ''/other''])],
                  RBody = []\<rparr>"
            and v = "''login''" and vs = "[''/other'']" and w = newResponseWriter]
          location_other_forwarded[where loc = "''ftp://files.local/x''"]
          location_other_forwarded[where loc = "''http://bad host/x''"
            and e = "InvalidHostError '' ''"]
          t b h d v
    by simp
qed

section \<open>Lemmas on the registry\<close>

lemma scanSessions_none_live:
  "\<forall>(k, s) \<in> set entries. PF (store s) = None \<Longrightarrow> scanSessions store entries acc = acc"
  by (induction store entries acc rule: scanSessions.induct) auto

lemma mostRecentLive_none_live:
  "\<forall>(k, s) \<in> set (activeSessions st). PF (sessions st s) = None \<Longrightarrow> mostRecentLive st = None"
  by (simp add: mostRecentLive_def scanSessions_none_live)

lemma Query_empty: "RawQuery u = [] \<Longrightarrow> Values_Get (Query u) key = []"
  by (simp add: Query_def parseQuery.simps Values_Get_def)

section \<open>Reuse of a registered session\<close>

text \<open>
  Claim C3, as stated, fails: on the path that returns an existing live session,
  \<^verbatim>\<open>getOrCreateSession\<close> itself assigns \<^verbatim>\<open>session.LastUsed = time.Now()\<close> (line 194). Called
  at time 200 for the session of \<open>oneSessionRegistry\<close>, last used at time 100, it returns
  that session with the timestamp 200.
\<close>

theorem existing_session_touched:
  "map_of (activeSessions oneSessionRegistry) ''ns/p:80'' = Some 0
   \<and> PF (sessions oneSessionRegistry 0) = Some 7
   \<and> LastUsed (sessions oneSessionRegistry 0) = 100
   \<and> fst (getOrCreateSession (exampleWorld\<lparr>nowSession := 200\<rparr>) oneSessionRegistry
             ''ns/p:80'' ''ns'' ''p'' 80) = Inr 0
   \<and> LastUsed (sessions (snd (getOrCreateSession (exampleWorld\<lparr>nowSession := 200\<rparr>)
                                  oneSessionRegistry ''ns/p:80'' ''ns'' ''p'' 80)) 0) = 200"
  by (simp add: getOrCreateSession_def oneSessionRegistry_def touch_def exampleWorld_def)

text \<open>
  Claim C3, amended. For a key that the registry maps to a session whose forwarder is not
  \<^verbatim>\<open>nil\<close>, \<^verbatim>\<open>getOrCreateSession\<close> returns that session without consulting the cluster: both
  maps, the allocation counter and every other session object are unchanged, and of the
  session itself only the last-used timestamp changes, which is set to the current time.
\<close>

theorem existing_session_returned:
  "map_of (activeSessions st) sessionKey = Some s \<and> PF (sessions st s) \<noteq> None \<longrightarrow>
     fst (getOrCreateSession world st sessionKey namespace pod port) = Inr s
     \<and> activeSessions (snd (getOrCreateSession world st sessionKey namespace pod port))
         = activeSessions st
     \<and> localPortToSession (snd (getOrCreateSession world st sessionKey namespace pod port))
         = localPortToSession st
     \<and> nextSession (snd (getOrCreateSession world st sessionKey namespace pod port))
         = nextSession st
     \<and> sessions (snd (getOrCreateSession world st sessionKey namespace pod port))
         = (sessions st)(s := (sessions st s)\<lparr>LastUsed := nowSession world\<rparr>)"
  by (auto simp: getOrCreateSession_def touch_def)

theorem existing_session_returned_witness:
  "fst (getOrCreateSession (exampleWorld\<lparr>podsGet := (\<lambda>namespace pod. Some ''not found'')\<rparr>)
          oneSessionRegistry ''ns/p:80'' ''ns'' ''p'' 80) = Inr 0
   \<and> activeSessions (snd (getOrCreateSession
          (exampleWorld\<lparr>podsGet := (\<lambda>namespace pod. Some ''not found'')\<rparr>)
          oneSessionRegistry ''ns/p:80'' ''ns'' ''p'' 80)) = [(''ns/p:80'', 0)]
   \<and> LocalPort (sessions (snd (getOrCreateSession
          (exampleWorld\<lparr>podsGet := (\<lambda>namespace pod. Some ''not found'')\<rparr>)
          oneSessionRegistry ''ns/p:80'' ''ns'' ''p'' 80)) 0) = 40001"
proof -
  have h: "map_of (activeSessions oneSessionRegistry) ''ns/p:80'' = Some 0
           \<and> PF (sessions oneSessionRegistry 0) \<noteq> None"
    by (simp add: oneSessionRegistry_def)
  show ?thesis
    using existing_session_returned[where st = oneSessionRegistry and sessionKey = "''ns/p:80''"
            and s = 0 and world = "exampleWorld\<lparr>podsGet := (\<lambda>namespace pod. Some ''not found'')\<rparr>"
            and namespace = "''ns''" and pod = "''p''" and port = 80] h
    by (simp add: oneSessionRegistry_def)
qed

section \<open>The root handler\<close>

text \<open>
  Claim C9, as stated, fails for the path \<^verbatim>\<open>/\<close>: it is none of \<^verbatim>\<open>/forward\<close>, \<^verbatim>\<open>/health\<close> or a
  path under \<^verbatim>\<open>/api/v1/extensions/pod-forward/\<close>, it neither contains \<^verbatim>\<open>/forward\<close> nor lies
  under the prefix, and the root handler answers it with status 200 and a line of text,
  not with 404 (lines 83 to 87).
\<close>

theorem root_path_not_404:
  "\<not> matchesRoute ''/''
   \<and> \<not> Contains ''/'' ''/forward''
   \<and> \<not> HasPrefix ''/'' ''/api/v1/extensions/pod-forward/''
   \<and> status (fst (rootHandler exampleWorld emptyRegistry newResponseWriter
                     (exampleRequest ''GET'' ''/'' []))) = 200
   \<and> body (fst (rootHandler exampleWorld emptyRegistry newResponseWriter
                   (exampleRequest ''GET'' ''/'' []))) = ''Pod Forward Backend - Path: /'' @ [CHR 10]"
  by (simp add: matchesRoute_def Contains_def HasPrefix_def rootHandler_def exampleRequest_def
        emptyURL_def newResponseWriter_def)

text \<open>
  Claim C9, amended. The root handler answers the path \<^verbatim>\<open>/\<close> itself with status 200 and
  the line \<^verbatim>\<open>Pod Forward Backend - Path: /\<close>. Any other path that contains \<^verbatim>\<open>/forward\<close> or
  lies under \<^verbatim>\<open>/api/v1/extensions/pod-forward/\<close> is handed to \<^verbatim>\<open>handlePortForward\<close>, whose
  response and registry are the result; among the paths that the other three routes do
  not match, these are the paths that contain \<^verbatim>\<open>/forward\<close>. Every remaining path, whatever
  the method, gets \<^verbatim>\<open>http.NotFound\<close>: status 404, and the registry is unchanged.
\<close>

theorem catch_all_route:
  "(Path (ReqURL r) = ''/'' \<longrightarrow>
      rootHandler world st w r =
        (w\<lparr>status := 200, body := body w @ ''Pod Forward Backend - Path: /'' @ [CHR 10]\<rparr>, st))
   \<and> (Path (ReqURL r) \<noteq> ''/''
        \<and> (Contains (Path (ReqURL r)) ''/forward''
            \<or> HasPrefix (Path (ReqURL r)) ''/api/v1/extensions/pod-forward/'') \<longrightarrow>
      rootHandler world st w r = handlePortForward world st w r)
   \<and> (\<not> matchesRoute (Path (ReqURL r)) \<longrightarrow>
      (Contains (Path (ReqURL r)) ''/forward''
         \<or> HasPrefix (Path (ReqURL r)) ''/api/v1/extensions/pod-forward/'')
       = Contains (Path (ReqURL r)) ''/forward'')
   \<and> (Path (ReqURL r) \<noteq> ''/''
        \<and> \<not> Contains (Path (ReqURL r)) ''/forward''
        \<and> \<not> HasPrefix (Path (ReqURL r)) ''/api/v1/extensions/pod-forward/'' \<longrightarrow>
      rootHandler world st w r = (NotFound w, st)
      \<and> status (fst (rootHandler world st w r)) = 404)"
  by (auto simp: rootHandler_def matchesRoute_def NotFound_def Error_def)

theorem catch_all_route_witness:
  "status (fst (rootHandler exampleWorld emptyRegistry newResponseWriter
                  (exampleRequest ''DELETE'' ''/metrics'' []))) = 404
   \<and> snd (rootHandler exampleWorld emptyRegistry newResponseWriter
             (exampleRequest ''DELETE'' ''/metrics'' [])) = emptyRegistry
   \<and> rootHandler exampleWorld emptyRegistry newResponseWriter
        (exampleRequest ''GET'' ''/app/forward'' ''namespace=ns&pod=p&port=80'')
      = handlePortForward exampleWorld emptyRegistry newResponseWriter
          (exampleRequest ''GET'' ''/app/forward'' ''namespace=ns&pod=p&port=80'')
   \<and> (Contains ''/app/forward'' ''/forward''
        \<or> HasPrefix ''/app/forward'' ''/api/v1/extensions/pod-forward/'')
       = Contains ''/app/forward'' ''/forward''
   \<and> status (fst (rootHandler exampleWorld emptyRegistry newResponseWriter
                     (exampleRequest ''GET'' ''/'' []))) = 200"
proof -
  have a: "Path (ReqURL (exampleRequest ''DELETE'' ''/metrics'' [])) \<noteq> ''/''
           \<and> \<not> Contains (Path (ReqURL (exampleRequest ''DELETE'' ''/metrics'' []))) ''/forward''
           \<and> \<not> HasPrefix (Path (ReqURL (exampleRequest ''DELETE'' ''/metrics'' [])))
                  ''/api/v1/extensions/pod-forward/''"
    by (simp add: exampleRequest_def emptyURL_def Contains_def HasPrefix_def)
  have b: "Path (ReqURL (exampleRequest ''GET'' ''/app/forward'' ''namespace=ns&pod=p&port=80'')) \<noteq> ''/''
           \<and> Contains (Path (ReqURL (exampleRequest ''GET'' ''/app/forward''
                  ''namespace=ns&pod=p&port=80''))) ''/forward''"
    by (simp add: exampleRequest_def emptyURL_def Contains_def HasPrefix_def)
  have m: "\<not> matchesRoute (Path (ReqURL (exampleRequest ''GET'' ''/app/forward''
                  ''namespace=ns&pod=p&port=80'')))"
    by (simp add: exampleRequest_def emptyURL_def matchesRoute_def HasPrefix_def)
  have p: "Path (ReqURL (exampleRequest ''GET'' ''/app/forward'' ''namespace=ns&pod=p&port=80''))
           = ''/app/forward''"
    by (simp add: exampleRequest_def emptyURL_def)
  have c: "Path (ReqURL (exampleRequest ''GET'' ''/'' [])) = ''/''"
    by (simp add: exampleRequest_def emptyURL_def)
  note R = catch_all_route[where r = "exampleRequest ''GET'' ''/app/forward'' ''namespace=ns&pod=p&port=80''"
            and world = exampleWorld and st = emptyRegistry and w = newResponseWriter]
  have e: "(Contains ''/app/forward'' ''/forward''
        \<or> HasPrefix ''/app/forward'' ''/api/v1/extensions/pod-forward/'')
       = Contains ''/app/forward'' ''/forward''"
    using R[THEN conjunct2, THEN conjunct2, THEN conjunct1, THEN mp, OF m] unfolding p .
  show ?thesis
    using catch_all_route[where r = "exampleRequest ''DELETE'' ''/metrics'' []"
            and world = exampleWorld and st = emptyRegistry and w = newResponseWriter] a
          R b e
          catch_all_route[where r = "exampleRequest ''GET'' ''/'' []"
            and world = exampleWorld and st = emptyRegistry and w = newResponseWriter] c
    by (simp add: NotFound_def Error_def)
qed

section \<open>Lemmas on \<^verbatim>\<open>strconv.Atoi\<close> and \<^verbatim>\<open>%d\<close>\<close>

lemma digitChar_digit:
  assumes "d < 10"
  shows "isDigit (digitChar d) \<and> byte (digitChar d) = 48 + d"
proof -
  from assms have "d \<in> {0, 1, 2, 3, 4, 5, 6, 7, 8, 9}" by auto
  then show ?thesis
    by (auto simp: digitChar_def isDigit_def byte_def)
qed

lemma digitsValue_snoc:
  "digitsValue (ds @ [c]) = digitsValue ds * 10 + int (byte c - 48)"
  by (simp add: digitsValue_def)

lemma digitsValue_nonneg: "0 \<le> digitsValue ds"
proof (induction ds rule: rev_induct)
  case Nil
  then show ?case by (simp add: digitsValue_def)
next
  case (snoc c ds)
  then show ?case by (simp add: digitsValue_snoc)
qed

lemma formatNat_digits:
  "formatNat n \<noteq> [] \<and> (\<forall>c \<in> set (formatNat n). isDigit c) \<and> digitsValue (formatNat n) = int n"
proof (induction n rule: formatNat.induct)
  case (1 n)
  show ?case
  proof (cases "n < 10")
    case True
    then show ?thesis
      using digitChar_digit[of n]
      by (simp add: formatNat.simps[of n] digitsValue_def)
  next
    case False
    have m: "n mod 10 < 10" by simp
    from False 1 have ih: "formatNat (n div 10) \<noteq> []"
      "\<forall>c \<in> set (formatNat (n div 10)). isDigit c"
      "digitsValue (formatNat (n div 10)) = int (n div 10)"
      by simp_all
    from False ih digitChar_digit[OF m] show ?thesis
      by (simp add: formatNat.simps[of n] digitsValue_snoc zdiv_int zmod_int)
  qed
qed

lemma isDigit_not_sign: "isDigit c \<Longrightarrow> c \<noteq> CHR ''-'' \<and> c \<noteq> CHR ''+''"
  by (auto simp: isDigit_def byte_def)

lemma Atoi_digits:
  assumes "ds \<noteq> []" and "\<forall>c \<in> set ds. isDigit c" and "digitsValue ds < 2 ^ 63"
  shows "Atoi ds = Some (digitsValue ds)"
proof -
  from assms(1) obtain c cs where ds: "ds = c # cs" by (cases ds) auto
  with assms(2) have "c \<noteq> CHR ''-'' \<and> c \<noteq> CHR ''+''" using isDigit_not_sign by simp
  moreover have "- (2 ^ 63) \<le> digitsValue ds"
    using digitsValue_nonneg[of ds] by simp
  ultimately show ?thesis
    using assms ds by (simp add: Atoi_def)
qed

lemma Atoi_minus_digits:
  assumes "ds \<noteq> []" and "\<forall>c \<in> set ds. isDigit c" and "digitsValue ds \<le> 2 ^ 63"
  shows "Atoi (CHR ''-'' # ds) = Some (- digitsValue ds)"
proof -
  have "- digitsValue ds < 2 ^ 63" using digitsValue_nonneg[of ds] by simp
  then show ?thesis using assms by (simp add: Atoi_def)
qed

lemma Atoi_formatInt:
  assumes "- (2 ^ 63) \<le> n" and "n < 2 ^ 63"
  shows "Atoi (formatInt n) = Some n"
proof (cases "n < 0")
  case True
  have v: "digitsValue (formatNat (nat (- n))) = - n"
    using True formatNat_digits[of "nat (- n)"] by simp
  have "Atoi (CHR ''-'' # formatNat (nat (- n))) = Some (- digitsValue (formatNat (nat (- n))))"
    using formatNat_digits[of "nat (- n)"] v assms(1)
    by (intro Atoi_minus_digits) auto
  with True v show ?thesis by (simp add: formatInt_def)
next
  case False
  have v: "digitsValue (formatNat (nat n)) = n"
    using False formatNat_digits[of "nat n"] by simp
  have "Atoi (formatNat (nat n)) = Some (digitsValue (formatNat (nat n)))"
    using formatNat_digits[of "nat n"] v assms(2)
    by (intro Atoi_digits) auto
  with False v show ?thesis by (simp add: formatInt_def)
qed

lemma Atoi_range: "Atoi s = Some n \<Longrightarrow> - (2 ^ 63) \<le> n \<and> n < 2 ^ 63"
  by (auto simp: Atoi_def Let_def split: list.splits if_splits prod.splits)


section \<open>Requests without routing parameters and without a live session\<close>

text \<open>
  Claim C6, as stated, fails for a path that is not the entry path but starts with it:
  line 149 tests \<^verbatim>\<open>strings.HasPrefix(r.URL.Path, "/api/v1/extensions/pod-forward/forward")\<close>,
  not equality. A \<^verbatim>\<open>GET\<close> of \<^verbatim>\<open>/api/v1/extensions/pod-forward/forward/extra\<close> with no
  parameters, on the empty registry, gets the HTML page with status 200, not a 400.
\<close>

theorem forward_subpath_gets_page:
  "Path (ReqURL (exampleRequest ''GET'' ''/api/v1/extensions/pod-forward/forward/extra'' []))
     \<noteq> ''/forward''
   \<and> Path (ReqURL (exampleRequest ''GET'' ''/api/v1/extensions/pod-forward/forward/extra'' []))
     \<noteq> ''/api/v1/extensions/pod-forward/forward''
   \<and> Values_Get (Query (ReqURL (exampleRequest ''GET''
         ''/api/v1/extensions/pod-forward/forward/extra'' []))) ''namespace'' = []
   \<and> activeSessions emptyRegistry = []
   \<and> status (fst (handlePortForward exampleWorld emptyRegistry newResponseWriter
         (exampleRequest ''GET'' ''/api/v1/extensions/pod-forward/forward/extra'' []))) = 200
   \<and> map_of (header (fst (handlePortForward exampleWorld emptyRegistry newResponseWriter
         (exampleRequest ''GET'' ''/api/v1/extensions/pod-forward/forward/extra'' []))))
        ''Content-Type'' = Some [''text/html; charset=utf-8'']"
proof -
  have q: "\<And>key. Values_Get (Query (ReqURL (exampleRequest ''GET''
         ''/api/v1/extensions/pod-forward/forward/extra'' []))) key = []"
    by (rule Query_empty) (simp add: exampleRequest_def emptyURL_def)
  have m: "mostRecentLive emptyRegistry = None"
    by (simp add: mostRecentLive_def emptyRegistry_def)
  show ?thesis
    by (simp add: handlePortForward_def handleWithoutParams_def q m serveForwardPage_def
          Header_Set_def HasPrefix_def newResponseWriter_def)
       (simp add: exampleRequest_def emptyURL_def emptyRegistry_def)
qed

text \<open>
  Claim C6, amended. When one of the three parameters is missing (empty) and no
  registered session has a forwarder, the response depends on path and method alone: a
  \<^verbatim>\<open>GET\<close> whose path is \<^verbatim>\<open>/forward\<close> or starts with \<^verbatim>\<open>/api/v1/extensions/pod-forward/forward\<close>
  gets the page of \<^verbatim>\<open>serveForwardPage\<close>, which has status 200, the content type
  \<^verbatim>\<open>text/html\<close>, and a body that repeats the three parameters as they were given; any other
  path or method gets \<^verbatim>\<open>http.Error\<close> with status 400 and the message of line 155. The
  registry is unchanged in both cases.
\<close>

theorem missing_params_no_session:
  "((Values_Get (Query (ReqURL r)) ''namespace'' = []
      \<or> Values_Get (Query (ReqURL r)) ''pod'' = []
      \<or> Values_Get (Query (ReqURL r)) ''port'' = [])
     \<and> (\<forall>(k, s) \<in> set (activeSessions st). PF (sessions st s) = None) \<longrightarrow>
     handlePortForward world st w r =
       (if (Path (ReqURL r) = ''/forward''
            \<or> HasPrefix (Path (ReqURL r)) ''/api/v1/extensions/pod-forward/forward'')
           \<and> Method r = ''GET''
        then (serveForwardPage w r, st)
        else (Error w (''Faltan par'' @ a_acute
                @ ''metros requeridos: namespace, pod, port. No hay sesi'' @ o_acute
                @ ''n activa.'') 400, st)))
   \<and> status (serveForwardPage newResponseWriter r) = 200
   \<and> map_of (header (serveForwardPage newResponseWriter r)) ''Content-Type''
       = Some [''text/html; charset=utf-8'']
   \<and> (\<exists>pre post. body (serveForwardPage newResponseWriter r) =
         pre @ ''namespace='' @ Values_Get (Query (ReqURL r)) ''namespace''
           @ '', pod='' @ Values_Get (Query (ReqURL r)) ''pod''
           @ '', port='' @ Values_Get (Query (ReqURL r)) ''port'' @ post)
   \<and> status (Error w msg 400) = 400
   \<and> body (Error newResponseWriter msg 400) = msg @ [CHR 10]"
proof (intro conjI impI)
  assume a: "(Values_Get (Query (ReqURL r)) ''namespace'' = []
      \<or> Values_Get (Query (ReqURL r)) ''pod'' = []
      \<or> Values_Get (Query (ReqURL r)) ''port'' = [])
     \<and> (\<forall>(k, s) \<in> set (activeSessions st). PF (sessions st s) = None)"
  then have "mostRecentLive st = None" by (simp add: mostRecentLive_none_live)
  with a show "handlePortForward world st w r =
       (if (Path (ReqURL r) = ''/forward''
            \<or> HasPrefix (Path (ReqURL r)) ''/api/v1/extensions/pod-forward/forward'')
           \<and> Method r = ''GET''
        then (serveForwardPage w r, st)
        else (Error w (''Faltan par'' @ a_acute
                @ ''metros requeridos: namespace, pod, port. No hay sesi'' @ o_acute
                @ ''n activa.'') 400, st))"
    by (auto simp: handlePortForward_def handleWithoutParams_def Let_def)
next
  show "status (serveForwardPage newResponseWriter r) = 200"
    by (simp add: serveForwardPage_def newResponseWriter_def)
next
  show "map_of (header (serveForwardPage newResponseWriter r)) ''Content-Type''
       = Some [''text/html; charset=utf-8'']"
    by (simp add: serveForwardPage_def newResponseWriter_def Header_Set_def)
next
  show "\<exists>pre post. body (serveForwardPage newResponseWriter r) =
         pre @ ''namespace='' @ Values_Get (Query (ReqURL r)) ''namespace''
           @ '', pod='' @ Values_Get (Query (ReqURL r)) ''pod''
           @ '', port='' @ Values_Get (Query (ReqURL r)) ''port'' @ post"
    unfolding serveForwardPage_def newResponseWriter_def
    by (rule exI[where x = "''<!DOCTYPE html>'' @ [CHR 10]
         @ ''<html>'' @ [CHR 10]
         @ ''<head>'' @ [CHR 10]
         @ ''    <title>Port Forward</title>'' @ [CHR 10]
         @ ''    <meta charset='' @ [CHR 0x22] @ ''utf-8'' @ [CHR 0x22] @ ''>'' @ [CHR 10]
         @ ''</head>'' @ [CHR 10]
         @ ''<body>'' @ [CHR 10]
         @ ''    <h1>Port Forward Activo</h1>'' @ [CHR 10]
         @ ''    <p>El port-forward est'' @ a_acute
         @ '' activo. Puedes acceder a la aplicaci'' @ o_acute
         @ ''n del pod directamente.</p>'' @ [CHR 10]
         @ ''    <p>Par'' @ a_acute @ ''metros: ''"],
        rule exI[where x = "''</p>'' @ [CHR 10] @ ''</body>'' @ [CHR 10] @ ''</html>''"])
       simp
next
  show "status (Error w msg 400) = 400" by (simp add: Error_def)
next
  show "body (Error newResponseWriter msg 400) = msg @ [CHR 10]"
    by (simp add: Error_def newResponseWriter_def)
qed

theorem missing_params_no_session_witness:
  "status (fst (handlePortForward exampleWorld emptyRegistry newResponseWriter
                  (exampleRequest ''GET'' ''/forward'' ''namespace=ns&pod=p''))) = 200
   \<and> status (fst (handlePortForward exampleWorld emptyRegistry newResponseWriter
                  (exampleRequest ''POST'' ''/forward'' ''namespace=ns&pod=p''))) = 400
   \<and> status (fst (handlePortForward exampleWorld emptyRegistry newResponseWriter
                  (exampleRequest ''GET'' ''/api/v1/extensions/pod-forward/d/home''
                     ''namespace=ns&pod=p''))) = 400
   \<and> snd (handlePortForward exampleWorld emptyRegistry newResponseWriter
            (exampleRequest ''POST'' ''/forward'' ''namespace=ns&pod=p'')) = emptyRegistry"
proof -
  have q: "\<And>method path.
      Values_Get (Query (ReqURL (exampleRequest method path ''namespace=ns&pod=p''))) ''port'' = []"
    by (simp add: exampleRequest_def emptyURL_def) code_simp
  have n: "\<forall>(k, s) \<in> set (activeSessions emptyRegistry). PF (sessions emptyRegistry s) = None"
    by (simp add: emptyRegistry_def)
  have p: "\<not> HasPrefix ''/api/v1/extensions/pod-forward/d/home''
               ''/api/v1/extensions/pod-forward/forward''"
    by (simp add: HasPrefix_def)
  show ?thesis
    using missing_params_no_session[where r = "exampleRequest ''GET'' ''/forward'' ''namespace=ns&pod=p''"
            and st = emptyRegistry and world = exampleWorld and w = newResponseWriter]
          missing_params_no_session[where r = "exampleRequest ''POST'' ''/forward'' ''namespace=ns&pod=p''"
            and st = emptyRegistry and world = exampleWorld and w = newResponseWriter]
          missing_params_no_session[where
            r = "exampleRequest ''GET'' ''/api/v1/extensions/pod-forward/d/home'' ''namespace=ns&pod=p''"
            and st = emptyRegistry and world = exampleWorld and w = newResponseWriter]
          q n p
    by (simp add: exampleRequest_def emptyURL_def serveForwardPage_def newResponseWriter_def
          Error_def)
qed


section \<open>The port parameter\<close>

text \<open>
  Claim C7, as stated, fails: the handler asks \<^verbatim>\<open>strconv.Atoi\<close> only whether the parameter
  is an integer, never whether it is positive. With \<^verbatim>\<open>port=0\<close> the three parameters are
  present, \<^verbatim>\<open>Atoi\<close> returns 0, and the request goes on to \<^verbatim>\<open>getOrCreateSession\<close> under the
  key \<^verbatim>\<open>ns/p:0\<close>. In a world where the port-forward library then refuses the port pair
  \<^verbatim>\<open>0:0\<close>, the response is the 500 of line 171, not a 400.
\<close>

theorem zero_port_not_rejected:
  "Values_Get (Query (ReqURL (exampleRequest ''GET'' ''/forward'' ''namespace=ns&pod=p&port=0'')))
      ''namespace'' = ''ns''
   \<and> Values_Get (Query (ReqURL (exampleRequest ''GET'' ''/forward'' ''namespace=ns&pod=p&port=0'')))
      ''pod'' = ''p''
   \<and> Values_Get (Query (ReqURL (exampleRequest ''GET'' ''/forward'' ''namespace=ns&pod=p&port=0'')))
      ''port'' = ''0''
   \<and> Atoi ''0'' = Some 0
   \<and> handlePortForward
        (exampleWorld\<lparr>portforwardNew := (\<lambda>ports. Inl ''remote port must be > 0'')\<rparr>)
        emptyRegistry newResponseWriter
        (exampleRequest ''GET'' ''/forward'' ''namespace=ns&pod=p&port=0'')
      = (Error newResponseWriter
           (''Error al crear port-forward: '' @ ''error al crear port-forward: ''
              @ ''remote port must be > 0'') 500,
         emptyRegistry)
   \<and> status (Error newResponseWriter
           (''Error al crear port-forward: '' @ ''error al crear port-forward: ''
              @ ''remote port must be > 0'') 500) = 500"
proof -
  have q: "Values_Get (Query (ReqURL (exampleRequest ''GET'' ''/forward'' ''namespace=ns&pod=p&port=0'')))
             ''namespace'' = ''ns''"
          "Values_Get (Query (ReqURL (exampleRequest ''GET'' ''/forward'' ''namespace=ns&pod=p&port=0'')))
             ''pod'' = ''p''"
          "Values_Get (Query (ReqURL (exampleRequest ''GET'' ''/forward'' ''namespace=ns&pod=p&port=0'')))
             ''port'' = ''0''"
    by code_simp+
  have a: "Atoi ''0'' = Some 0" by code_simp
  have g: "getOrCreateSession
             (exampleWorld\<lparr>portforwardNew := (\<lambda>ports. Inl ''remote port must be > 0'')\<rparr>)
             emptyRegistry (''ns'' @ ''/'' @ ''p'' @ '':'' @ formatInt 0) ''ns'' ''p'' 0
           = (Inl (TunnelCreateFailed ''remote port must be > 0''), emptyRegistry)"
    by (simp add: getOrCreateSession_def establish_def openTunnel_def emptyRegistry_def
          exampleWorld_def)
  show ?thesis
    by (simp add: handlePortForward_def handleWithParams_def q a g Error_def del: append.simps)
qed

text \<open>
  Claim C7, amended. When the three parameters are present, the outcome is decided by
  \<^verbatim>\<open>strconv.Atoi\<close> alone. When it rejects the port parameter, the response is
  \<^verbatim>\<open>http.Error\<close> with status 400 and the message \<^verbatim>\<open>Puerto inv\<close>..\<^verbatim>\<open>lido: \<close> followed by the
  parameter, and the registry is unchanged. When it returns a number, the handler goes on
  with the session identity made of the namespace, the pod and that number, under the
  key \<^verbatim>\<open>namespace/pod:number\<close>; a failure of \<^verbatim>\<open>getOrCreateSession\<close> for that key gives
  status 500. \<^verbatim>\<open>Atoi\<close> returns only numbers of the 64-bit range, and it returns every such
  number, zero and the negative ones included, for its decimal form.
\<close>

theorem port_parameter_parsed:
  "(Values_Get (Query (ReqURL r)) ''namespace'' = namespace \<and> namespace \<noteq> []
      \<and> Values_Get (Query (ReqURL r)) ''pod'' = pod \<and> pod \<noteq> []
      \<and> Values_Get (Query (ReqURL r)) ''port'' = portStr \<and> portStr \<noteq> [] \<longrightarrow>
      (Atoi portStr = None \<longrightarrow>
         handlePortForward world st w r =
           (Error w (''Puerto inv'' @ a_acute @ ''lido: '' @ portStr) 400, st))
      \<and> (Atoi portStr = Some port \<longrightarrow>
         handlePortForward world st w r = handleWithParams world st w r namespace pod port))
   \<and> (getOrCreateSession world st (namespace @ ''/'' @ pod @ '':'' @ formatInt port)
         namespace pod port = (Inl err, st') \<longrightarrow>
       handleWithParams world st w r namespace pod port =
         (Error w (''Error al crear port-forward: '' @ errorString err) 500, st'))
   \<and> (getOrCreateSession world st (namespace @ ''/'' @ pod @ '':'' @ formatInt port)
         namespace pod port = (Inr session, st') \<longrightarrow>
       handleWithParams world st w r namespace pod port =
         (proxyHTTP world w r (LocalPort (sessions st' session)),
          touch st' session (nowHandler world)))
   \<and> (Atoi s = Some n \<longrightarrow> - (2 ^ 63) \<le> n \<and> n < 2 ^ 63)
   \<and> (- (2 ^ 63) \<le> n \<and> n < 2 ^ 63 \<longrightarrow> Atoi (formatInt n) = Some n)
   \<and> status (Error w msg 400) = 400"
proof (intro conjI impI)
  assume a: "Values_Get (Query (ReqURL r)) ''namespace'' = namespace \<and> namespace \<noteq> []
      \<and> Values_Get (Query (ReqURL r)) ''pod'' = pod \<and> pod \<noteq> []
      \<and> Values_Get (Query (ReqURL r)) ''port'' = portStr \<and> portStr \<noteq> []"
  {
    assume "Atoi portStr = None"
    with a show "handlePortForward world st w r =
           (Error w (''Puerto inv'' @ a_acute @ ''lido: '' @ portStr) 400, st)"
      by (simp add: handlePortForward_def Let_def)
  }
  {
    assume "Atoi portStr = Some port"
    with a show "handlePortForward world st w r = handleWithParams world st w r namespace pod port"
      by (simp add: handlePortForward_def Let_def)
  }
next
  assume "getOrCreateSession world st (namespace @ ''/'' @ pod @ '':'' @ formatInt port)
         namespace pod port = (Inl err, st')"
  then show "handleWithParams world st w r namespace pod port =
         (Error w (''Error al crear port-forward: '' @ errorString err) 500, st')"
    by (simp add: handleWithParams_def Let_def)
next
  assume "getOrCreateSession world st (namespace @ ''/'' @ pod @ '':'' @ formatInt port)
         namespace pod port = (Inr session, st')"
  then show "handleWithParams world st w r namespace pod port =
         (proxyHTTP world w r (LocalPort (sessions st' session)),
          touch st' session (nowHandler world))"
    by (simp add: handleWithParams_def Let_def touch_def)
next
  assume "Atoi s = Some n"
  then show "- (2 ^ 63) \<le> n" "n < 2 ^ 63" using Atoi_range by blast+
next
  assume "- (2 ^ 63) \<le> n \<and> n < 2 ^ 63"
  then show "Atoi (formatInt n) = Some n" by (simp add: Atoi_formatInt)
next
  show "status (Error w msg 400) = 400" by (simp add: Error_def)
qed

theorem port_parameter_parsed_witness:
  "status (fst (handlePortForward exampleWorld emptyRegistry newResponseWriter
                  (exampleRequest ''GET'' ''/forward'' ''namespace=ns&pod=p&port=8o80''))) = 400
   \<and> handlePortForward exampleWorld emptyRegistry newResponseWriter
        (exampleRequest ''GET'' ''/forward'' ''namespace=ns&pod=p&port=-5'')
      = handleWithParams exampleWorld emptyRegistry newResponseWriter
          (exampleRequest ''GET'' ''/forward'' ''namespace=ns&pod=p&port=-5'') ''ns'' ''p'' (- 5)
   \<and> status (fst (handleWithParams
          (exampleWorld\<lparr>podsGet := (\<lambda>namespace pod. Some ''pods not found'')\<rparr>)
          emptyRegistry newResponseWriter
          (exampleRequest ''GET'' ''/forward'' ''namespace=ns&pod=p&port=80'') ''ns'' ''p'' 80)) = 500
   \<and> fst (handleWithParams exampleWorld emptyRegistry newResponseWriter
          (exampleRequest ''GET'' ''/forward'' ''namespace=ns&pod=p&port=80'') ''ns'' ''p'' 80)
       = proxyHTTP exampleWorld newResponseWriter
          (exampleRequest ''GET'' ''/forward'' ''namespace=ns&pod=p&port=80'') 40001
   \<and> Atoi ''80'' = Some 80
   \<and> Atoi (formatInt (- 5)) = Some (- 5)"
proof -
  let ?bad = "exampleRequest ''GET'' ''/forward'' ''namespace=ns&pod=p&port=8o80''"
  let ?neg = "exampleRequest ''GET'' ''/forward'' ''namespace=ns&pod=p&port=-5''"
  let ?ok = "exampleRequest ''GET'' ''/forward'' ''namespace=ns&pod=p&port=80''"
  let ?noPod = "exampleWorld\<lparr>podsGet := (\<lambda>namespace pod. Some ''pods not found'')\<rparr>"
  have q: "Values_Get (Query (ReqURL ?bad)) ''namespace'' = ''ns''"
          "Values_Get (Query (ReqURL ?bad)) ''pod'' = ''p''"
          "Values_Get (Query (ReqURL ?bad)) ''port'' = ''8o80''"
          "Values_Get (Query (ReqURL ?neg)) ''namespace'' = ''ns''"
          "Values_Get (Query (ReqURL ?neg)) ''pod'' = ''p''"
          "Values_Get (Query (ReqURL ?neg)) ''port'' = ''-5''"
    by code_simp+
  have a: "Atoi ''8o80'' = None" "Atoi ''-5'' = Some (- 5)" "Atoi ''80'' = Some 80" by code_simp+
  have r: "- (2 ^ 63) \<le> (- 5 :: int) \<and> (- 5 :: int) < 2 ^ 63" by simp
  have k: "''ns'' @ ''/'' @ ''p'' @ '':'' @ formatInt 80 = ''ns/p:80''"
    by (simp add: formatInt_def formatNat.simps digitChar_def)
  have g1: "getOrCreateSession ?noPod emptyRegistry (''ns'' @ ''/'' @ ''p'' @ '':'' @ formatInt 80)
              ''ns'' ''p'' 80 = (Inl (TargetNotFound ''pods not found''), emptyRegistry)"
    by (simp add: getOrCreateSession_def establish_def openTunnel_def emptyRegistry_def)
  have s: "snd (selectWait exampleWorld) = ReadyCase"
    by (simp add: selectWait_def selectCandidates_def exampleWorld_def Second_def Let_def)
  have f: "podsGet exampleWorld ''ns'' ''p'' = None" "roundTripperFor exampleWorld = None"
    "\<And>ports. portforwardNew exampleWorld ports = Inr 7"
    "getPorts exampleWorld = ([\<lparr>Local = 40001, Remote = 80\<rparr>], None)"
    by (simp_all add: exampleWorld_def)
  have o: "openTunnel exampleWorld ''ns'' ''p'' 80 = Inr (7, 40001)"
    by (simp add: openTunnel_def s f)
  define st1 where
    "st1 = emptyRegistry\<lparr>sessions := (sessions emptyRegistry)
                (0 := newSession exampleWorld ''ns'' ''p'' 80 7 40001),
              nextSession := 1,
              activeSessions := [(''ns/p:80'', 0)],
              localPortToSession := [40001 \<mapsto> ''ns/p:80'']\<rparr>"
  have g2: "getOrCreateSession exampleWorld emptyRegistry (''ns'' @ ''/'' @ ''p'' @ '':'' @ formatInt 80)
              ''ns'' ''p'' 80 = (Inr 0, st1)"
    unfolding k by (simp add: getOrCreateSession_def establish_def o st1_def emptyRegistry_def)
  have l: "LocalPort (sessions st1 0) = 40001" by (simp add: st1_def newSession_def)
  note P1 = port_parameter_parsed[where r = ?bad and namespace = "''ns''" and pod = "''p''"
              and portStr = "''8o80''" and world = exampleWorld and st = emptyRegistry
              and w = newResponseWriter]
  note P2 = port_parameter_parsed[where r = ?neg and namespace = "''ns''" and pod = "''p''"
              and portStr = "''-5''" and port = "- 5" and world = exampleWorld
              and st = emptyRegistry and w = newResponseWriter and n = "- 5"]
  note P3 = port_parameter_parsed[where r = ?ok and namespace = "''ns''" and pod = "''p''"
              and port = 80 and world = ?noPod and st = emptyRegistry and w = newResponseWriter
              and err = "TargetNotFound ''pods not found''" and st' = emptyRegistry]
  note P4 = port_parameter_parsed[where r = ?ok and namespace = "''ns''" and pod = "''p''"
              and port = 80 and world = exampleWorld and st = emptyRegistry
              and w = newResponseWriter and session = 0 and st' = st1
              and s = "''80''" and n = 80]
  have c1: "status (fst (handlePortForward exampleWorld emptyRegistry newResponseWriter ?bad)) = 400"
    using P1 q a by (simp add: Error_def)
  have c2: "handlePortForward exampleWorld emptyRegistry newResponseWriter ?neg
      = handleWithParams exampleWorld emptyRegistry newResponseWriter ?neg ''ns'' ''p'' (- 5)"
    using P2 q a by simp
  have c3: "status (fst (handleWithParams ?noPod emptyRegistry newResponseWriter ?ok ''ns'' ''p'' 80))
            = 500"
    using P3[THEN conjunct2, THEN conjunct1, THEN mp, OF g1] by (simp add: Error_def)
  have c4: "fst (handleWithParams exampleWorld emptyRegistry newResponseWriter ?ok ''ns'' ''p'' 80)
       = proxyHTTP exampleWorld newResponseWriter ?ok 40001"
    using P4[THEN conjunct2, THEN conjunct2, THEN conjunct1, THEN mp, OF g2] l by simp
  have c5: "- (2 ^ 63) \<le> (80::int) \<and> (80::int) < 2 ^ 63"
    using P4[THEN conjunct2, THEN conjunct2, THEN conjunct2, THEN conjunct1, THEN mp, OF a(3)] .
  have c6: "Atoi (formatInt (- 5)) = Some (- 5)"
    using P2[THEN conjunct2, THEN conjunct2, THEN conjunct2, THEN conjunct2, THEN conjunct1,
             THEN mp, OF r] .
  from c1 c2 c3 c4 a(3) c5 c6 show ?thesis by (intro conjI)
qed

section \<open>Fallback resolution\<close>

lemma scanSessions_result:
  "scanSessions store entries (a, t) = (a', t') \<Longrightarrow>
     t \<le> t'
     \<and> (\<forall>(k, s) \<in> set entries. PF (store s) \<noteq> None \<longrightarrow> LastUsed (store s) \<le> t')
     \<and> ((a' = a \<and> t' = t)
         \<or> (\<exists>k s. (k, s) \<in> set entries \<and> a' = Some s \<and> PF (store s) \<noteq> None
                \<and> LastUsed (store s) = t' \<and> t < t'))"
proof (induction entries arbitrary: a t)
  case Nil
  then show ?case by simp
next
  case (Cons e entries)
  obtain k s where e: "e = (k, s)" by (cases e)
  show ?case
  proof (cases "PF (store s) \<noteq> None \<and> After (LastUsed (store s)) t")
    case True
    with Cons.prems e have "scanSessions store entries (Some s, LastUsed (store s)) = (a', t')"
      by simp
    from Cons.IH[OF this] True e show ?thesis
      by (fastforce simp: After_def)
  next
    case False
    with Cons.prems e have "scanSessions store entries (a, t) = (a', t')"
      by auto
    from Cons.IH[OF this] False e show ?thesis
      by (fastforce simp: After_def)
  qed
qed

lemma mostRecentLive_Some:
  assumes "mostRecentLive st = Some s"
  shows "(\<exists>k. (k, s) \<in> set (activeSessions st)) \<and> PF (sessions st s) \<noteq> None
         \<and> (\<forall>(k', s') \<in> set (activeSessions st).
               PF (sessions st s') \<noteq> None \<longrightarrow> LastUsed (sessions st s') \<le> LastUsed (sessions st s))"
proof -
  obtain a' t' where r: "scanSessions (sessions st) (activeSessions st) (None, 0) = (a', t')"
    by (cases "scanSessions (sessions st) (activeSessions st) (None, 0)")
  with assms have a': "a' = Some s" by (simp add: mostRecentLive_def)
  from scanSessions_result[OF r] a' show ?thesis by auto
qed

lemma mostRecentLive_exists:
  assumes "(k, s) \<in> set (activeSessions st)" and "PF (sessions st s) \<noteq> None"
    and "0 < LastUsed (sessions st s)"
  shows "mostRecentLive st \<noteq> None"
proof -
  obtain a' t' where r: "scanSessions (sessions st) (activeSessions st) (None, 0) = (a', t')"
    by (cases "scanSessions (sessions st) (activeSessions st) (None, 0)")
  from scanSessions_result[OF r] assms have "0 < t'" by fastforce
  with scanSessions_result[OF r] have "a' \<noteq> None" by auto
  with r show ?thesis by (simp add: mostRecentLive_def)
qed

text \<open>
  Every timestamp that the handlers store is a reading of the clock, so the timestamps of
  the registered sessions stay after the zero time as long as the clock is.
\<close>

lemma set_update_subset: "set (AList.update k v al) \<subseteq> insert (k, v) (set al)"
  by (induction al) auto

lemma touch_positive:
  assumes "\<forall>(k, s) \<in> set (activeSessions st). 0 < LastUsed (sessions st s)" and "0 < t"
  shows "\<forall>(k, s) \<in> set (activeSessions (touch st a t)). 0 < LastUsed (sessions (touch st a t) s)"
  using assms by (auto simp: touch_def)

lemma establish_positive:
  assumes "\<forall>(k, s) \<in> set (activeSessions st). 0 < LastUsed (sessions st s)"
    and "0 < nowSession world"
  shows "\<forall>(k, s) \<in> set (activeSessions (snd (establish world st key namespace pod port))).
           0 < LastUsed (sessions (snd (establish world st key namespace pod port)) s)"
proof (cases "openTunnel world namespace pod port")
  case (Inl e)
  with assms show ?thesis by (simp add: establish_def)
next
  case (Inr p)
  obtain pf localPort where p: "p = (pf, localPort)" by (cases p)
  show ?thesis
    using assms Inr p set_update_subset[of key "nextSession st" "activeSessions st"]
    by (auto simp: establish_def Let_def newSession_def)
qed

lemma getOrCreateSession_positive:
  assumes "\<forall>(k, s) \<in> set (activeSessions st). 0 < LastUsed (sessions st s)"
    and "0 < nowSession world"
  shows "\<forall>(k, s) \<in> set (activeSessions (snd (getOrCreateSession world st key namespace pod port))).
           0 < LastUsed (sessions (snd (getOrCreateSession world st key namespace pod port)) s)"
  using establish_positive[OF assms] touch_positive[OF assms]
  by (simp add: getOrCreateSession_def split: option.splits)

lemma handlePortForward_positive:
  assumes "\<forall>(k, s) \<in> set (activeSessions st). 0 < LastUsed (sessions st s)"
    and "0 < nowSession world" and "0 < nowHandler world"
  shows "\<forall>(k, s) \<in> set (activeSessions (snd (handlePortForward world st w r))).
           0 < LastUsed (sessions (snd (handlePortForward world st w r)) s)"
proof -
  have a: "\<forall>(k, s) \<in> set (activeSessions (snd (handleWithoutParams world st w r))).
           0 < LastUsed (sessions (snd (handleWithoutParams world st w r)) s)"
    using assms(1) touch_positive[OF assms(1) assms(3)]
    by (simp add: handleWithoutParams_def Let_def split: option.splits)
  have b: "\<And>namespace pod port.
         \<forall>(k, s) \<in> set (activeSessions (snd (handleWithParams world st w r namespace pod port))).
           0 < LastUsed (sessions (snd (handleWithParams world st w r namespace pod port)) s)"
  proof -
    fix namespace pod port
    let ?g = "getOrCreateSession world st (namespace @ ''/'' @ pod @ '':'' @ formatInt port)
                namespace pod port"
    have g: "\<forall>(k, s) \<in> set (activeSessions (snd ?g)). 0 < LastUsed (sessions (snd ?g) s)"
      by (rule getOrCreateSession_positive[OF assms(1) assms(2)])
    show "\<forall>(k, s) \<in> set (activeSessions (snd (handleWithParams world st w r namespace pod port))).
           0 < LastUsed (sessions (snd (handleWithParams world st w r namespace pod port)) s)"
      using g touch_positive[OF g assms(3)]
      by (cases ?g) (auto simp: handleWithParams_def Let_def split: sum.splits)
  qed
  show ?thesis
    using a b assms(1)
    by (simp add: handlePortForward_def Let_def split: option.splits)
qed


text \<open>
  Claim C5. A request with a missing parameter is resolved by the loop over the
  registry. Whatever the order of the iteration, the session it selects is registered,
  has a forwarder, and no registered session with a forwarder was used later; it selects
  one whenever some registered session with a forwarder has a timestamp after the zero
  time, which is where \<^verbatim>\<open>mostRecentTime\<close> starts and which every reading of the clock is
  after. The request is then proxied to the local port of that session, whose
  timestamp is refreshed. Of two live sessions last used at \<open>T1 < T2\<close> the one used at
  \<open>T2\<close> is selected, in either order of iteration, and on the empty registry none is
  selected. The loop makes no call that can panic, so the function is total.
\<close>

theorem fallback_selects_most_recent:
  "(mostRecentLive st = Some s \<longrightarrow>
      (\<exists>k. (k, s) \<in> set (activeSessions st)) \<and> PF (sessions st s) \<noteq> None
      \<and> (\<forall>(k', s') \<in> set (activeSessions st).
            PF (sessions st s') \<noteq> None \<longrightarrow> LastUsed (sessions st s') \<le> LastUsed (sessions st s)))
   \<and> ((k, s') \<in> set (activeSessions st) \<and> PF (sessions st s') \<noteq> None
        \<and> 0 < LastUsed (sessions st s') \<longrightarrow> mostRecentLive st \<noteq> None)
   \<and> (Values_Get (Query (ReqURL r)) ''namespace'' = []
        \<or> Values_Get (Query (ReqURL r)) ''pod'' = []
        \<or> Values_Get (Query (ReqURL r)) ''port'' = [] \<longrightarrow>
       handlePortForward world st w r = handleWithoutParams world st w r)
   \<and> (mostRecentLive st = Some s \<longrightarrow>
       handleWithoutParams world st w r =
         (proxyHTTP world w r (LocalPort (sessions st s)), touch st s (nowHandler world)))
   \<and> ((activeSessions st = [(ka, a), (kb, b)] \<or> activeSessions st = [(kb, b), (ka, a)])
        \<and> PF (sessions st a) \<noteq> None \<and> PF (sessions st b) \<noteq> None
        \<and> 0 < LastUsed (sessions st a) \<and> LastUsed (sessions st a) < LastUsed (sessions st b) \<longrightarrow>
       mostRecentLive st = Some b)
   \<and> (activeSessions st = [] \<longrightarrow> mostRecentLive st = None)"
proof (intro conjI impI)
  assume "mostRecentLive st = Some s"
  from mostRecentLive_Some[OF this]
  show "\<exists>k. (k, s) \<in> set (activeSessions st)" "PF (sessions st s) \<noteq> None"
    "\<forall>(k', s') \<in> set (activeSessions st).
       PF (sessions st s') \<noteq> None \<longrightarrow> LastUsed (sessions st s') \<le> LastUsed (sessions st s)"
    by blast+
next
  assume "(k, s') \<in> set (activeSessions st) \<and> PF (sessions st s') \<noteq> None
        \<and> 0 < LastUsed (sessions st s')"
  then show "mostRecentLive st \<noteq> None"
    using mostRecentLive_exists[of k s' st] by blast
next
  assume "Values_Get (Query (ReqURL r)) ''namespace'' = []
        \<or> Values_Get (Query (ReqURL r)) ''pod'' = []
        \<or> Values_Get (Query (ReqURL r)) ''port'' = []"
  then show "handlePortForward world st w r = handleWithoutParams world st w r"
    by (auto simp: handlePortForward_def Let_def)
next
  assume "mostRecentLive st = Some s"
  then show "handleWithoutParams world st w r =
         (proxyHTTP world w r (LocalPort (sessions st s)), touch st s (nowHandler world))"
    by (simp add: handleWithoutParams_def Let_def touch_def)
next
  assume "(activeSessions st = [(ka, a), (kb, b)] \<or> activeSessions st = [(kb, b), (ka, a)])
        \<and> PF (sessions st a) \<noteq> None \<and> PF (sessions st b) \<noteq> None
        \<and> 0 < LastUsed (sessions st a) \<and> LastUsed (sessions st a) < LastUsed (sessions st b)"
  then show "mostRecentLive st = Some b"
    by (auto simp: mostRecentLive_def After_def)
next
  assume "activeSessions st = []"
  then show "mostRecentLive st = None" by (simp add: mostRecentLive_def)
qed

theorem fallback_selects_most_recent_witness:
  "mostRecentLive twoSessionRegistry = Some 1
   \<and> mostRecentLive
       (twoSessionRegistry\<lparr>activeSessions := [(''ns/q:8080'', 1), (''ns/p:80'', 0)]\<rparr>) = Some 1
   \<and> mostRecentLive emptyRegistry = None
   \<and> PF (sessions twoSessionRegistry 1) \<noteq> None
   \<and> mostRecentLive oneSessionRegistry \<noteq> None
   \<and> handlePortForward exampleWorld twoSessionRegistry newResponseWriter
        (exampleRequest ''GET'' ''/api/v1/extensions/pod-forward/d/home'' [])
      = (proxyHTTP exampleWorld newResponseWriter
           (exampleRequest ''GET'' ''/api/v1/extensions/pod-forward/d/home'' []) 40002,
         touch twoSessionRegistry 1 101)"
proof -
  let ?r = "exampleRequest ''GET'' ''/api/v1/extensions/pod-forward/d/home'' []"
  let ?swapped = "twoSessionRegistry\<lparr>activeSessions := [(''ns/q:8080'', 1), (''ns/p:80'', 0)]\<rparr>"
  have q: "Values_Get (Query (ReqURL ?r)) ''namespace'' = []
           \<or> Values_Get (Query (ReqURL ?r)) ''pod'' = []
           \<or> Values_Get (Query (ReqURL ?r)) ''port'' = []"
    by (rule disjI1, rule Query_empty) (simp add: exampleRequest_def emptyURL_def)
  have t: "(activeSessions twoSessionRegistry = [(''ns/p:80'', 0), (''ns/q:8080'', 1)]
            \<or> activeSessions twoSessionRegistry = [(''ns/q:8080'', 1), (''ns/p:80'', 0)])
           \<and> PF (sessions twoSessionRegistry 0) \<noteq> None
           \<and> PF (sessions twoSessionRegistry 1) \<noteq> None
           \<and> 0 < LastUsed (sessions twoSessionRegistry 0)
           \<and> LastUsed (sessions twoSessionRegistry 0) < LastUsed (sessions twoSessionRegistry 1)"
    by (simp add: twoSessionRegistry_def)
  have t': "(activeSessions ?swapped = [(''ns/p:80'', 0), (''ns/q:8080'', 1)]
            \<or> activeSessions ?swapped = [(''ns/q:8080'', 1), (''ns/p:80'', 0)])
           \<and> PF (sessions ?swapped 0) \<noteq> None
           \<and> PF (sessions ?swapped 1) \<noteq> None
           \<and> 0 < LastUsed (sessions ?swapped 0)
           \<and> LastUsed (sessions ?swapped 0) < LastUsed (sessions ?swapped 1)"
    by (simp add: twoSessionRegistry_def)
  have e: "activeSessions emptyRegistry = []" by (simp add: emptyRegistry_def)
  have o: "(''ns/p:80'', 0) \<in> set (activeSessions oneSessionRegistry)
           \<and> PF (sessions oneSessionRegistry 0) \<noteq> None
           \<and> 0 < LastUsed (sessions oneSessionRegistry 0)"
    by (simp add: oneSessionRegistry_def)
  note F1 = fallback_selects_most_recent[where st = twoSessionRegistry and s = 1
              and ka = "''ns/p:80''" and a = 0 and kb = "''ns/q:8080''" and b = 1
              and r = ?r and world = exampleWorld and w = newResponseWriter]
  note F2 = fallback_selects_most_recent[where st = ?swapped
              and ka = "''ns/p:80''" and a = 0 and kb = "''ns/q:8080''" and b = 1]
  note F3 = fallback_selects_most_recent[where st = emptyRegistry]
  note F4 = fallback_selects_most_recent[where st = oneSessionRegistry and k = "''ns/p:80''"
              and s' = 0]
  have c1: "mostRecentLive twoSessionRegistry = Some 1"
    by (rule F1[THEN conjunct2, THEN conjunct2, THEN conjunct2, THEN conjunct2, THEN conjunct1,
                THEN mp, OF t])
  have c2: "mostRecentLive ?swapped = Some 1"
    by (rule F2[THEN conjunct2, THEN conjunct2, THEN conjunct2, THEN conjunct2, THEN conjunct1,
                THEN mp, OF t'])
  have c3: "mostRecentLive emptyRegistry = None"
    by (rule F3[THEN conjunct2, THEN conjunct2, THEN conjunct2, THEN conjunct2, THEN conjunct2,
                THEN mp, OF e])
  have c4: "PF (sessions twoSessionRegistry 1) \<noteq> None"
    using F1[THEN conjunct1, THEN mp, OF c1] by blast
  have c5: "mostRecentLive oneSessionRegistry \<noteq> None"
    by (rule F4[THEN conjunct2, THEN conjunct1, THEN mp, OF o])
  have h1: "handlePortForward exampleWorld twoSessionRegistry newResponseWriter ?r
            = handleWithoutParams exampleWorld twoSessionRegistry newResponseWriter ?r"
    by (rule F1[THEN conjunct2, THEN conjunct2, THEN conjunct1, THEN mp, OF q])
  have h2: "handleWithoutParams exampleWorld twoSessionRegistry newResponseWriter ?r
            = (proxyHTTP exampleWorld newResponseWriter ?r (LocalPort (sessions twoSessionRegistry 1)),
               touch twoSessionRegistry 1 (nowHandler exampleWorld))"
    by (rule F1[THEN conjunct2, THEN conjunct2, THEN conjunct2, THEN conjunct1, THEN mp, OF c1])
  have n: "nowHandler exampleWorld = 101" "LocalPort (sessions twoSessionRegistry 1) = 40002"
    by (simp_all add: exampleWorld_def twoSessionRegistry_def)
  have c6: "handlePortForward exampleWorld twoSessionRegistry newResponseWriter ?r
      = (proxyHTTP exampleWorld newResponseWriter ?r 40002, touch twoSessionRegistry 1 101)"
    using h1 h2 n by simp
  from c1 c2 c3 c4 c5 c6 show ?thesis by (intro conjI)
qed

section \<open>Establishing a tunnel\<close>

lemma fold_min_le: "fold min xs a \<le> (a::nat) \<and> (\<forall>x \<in> set xs. fold min xs a \<le> x)"
proof (induction xs arbitrary: a)
  case Nil
  then show ?case by simp
next
  case (Cons x xs)
  from Cons.IH[of "min x a"] show ?case by (auto simp: min_def split: if_splits)
qed

lemma fold_min_in: "fold min xs a \<in> insert (a::nat) (set xs)"
proof (induction xs arbitrary: a)
  case Nil
  then show ?case by simp
next
  case (Cons x xs)
  from Cons.IH[of "min x a"] show ?case by (auto simp: min_def split: if_splits)
qed

lemma in_selectCandidates:
  "(t, c) \<in> set (selectCandidates world) \<longleftrightarrow>
     (c = ReadyCase \<and> readyAfter world = Some t)
     \<or> (\<exists>e. c = ErrCase e \<and> errAfter world = Some (t, e))
     \<or> (c = TimeoutCase \<and> t = 5 * Second)"
  by (cases "readyAfter world"; cases "errAfter world") (auto simp: selectCandidates_def)

lemma selectWait_chosen:
  assumes "selectWait world = (t, c)"
  shows "(t, c) \<in> set (selectCandidates world) \<and> t \<le> 5 * Second
         \<and> (\<forall>t' c'. (t', c') \<in> set (selectCandidates world) \<longrightarrow> t \<le> t')"
proof -
  define cands where "cands = selectCandidates world"
  define m where "m = fold min (map fst cands) (5 * Second)"
  define due where "due = filter (\<lambda>c. fst c = m) cands"
  have "(5 * Second, TimeoutCase) \<in> set cands"
    unfolding cands_def by (simp add: in_selectCandidates)
  then have T: "5 * Second \<in> set (map fst cands)" by force
  have "m \<in> insert (5 * Second) (set (map fst cands))"
    unfolding m_def by (rule fold_min_in)
  with T have "m \<in> set (map fst cands)" by blast
  then have ne: "due \<noteq> []"
    unfolding due_def by (auto simp: filter_empty_conv)
  define x where "x = due ! (selectDraw world mod length due)"
  from ne have xin: "x \<in> set due"
    unfolding x_def by (intro nth_mem) simp
  then have fx: "fst x = m" by (simp add: due_def)
  have "selectWait world = (m, snd x)"
    by (simp add: selectWait_def Let_def cands_def m_def due_def x_def)
  with assms have "t = m" and "c = snd x" by simp_all
  with fx have "x = (t, c)" by (cases x) simp
  with xin have "t = m" and "(t, c) \<in> set due" using \<open>t = m\<close> by simp_all
  moreover have "m \<le> 5 * Second" "\<forall>x \<in> set (map fst cands). m \<le> x"
    using fold_min_le[of "map fst cands" "5 * Second"] unfolding m_def by auto
  ultimately show ?thesis
    unfolding due_def cands_def by force
qed

lemma selectWait_cases:
  assumes "selectWait world = (t, c)"
  shows "t \<le> 5 * Second"
    and "c = ReadyCase \<Longrightarrow> readyAfter world = Some t"
    and "c = ErrCase e \<Longrightarrow> errAfter world = Some (t, e)"
    and "c = TimeoutCase \<Longrightarrow> t = 5 * Second"
    and "readyAfter world = Some tr \<Longrightarrow> t \<le> tr"
    and "errAfter world = Some (te, e') \<Longrightarrow> t \<le> te"
  using selectWait_chosen[OF assms]
  by (auto simp: in_selectCandidates)

lemma selectWait_ready_first:
  assumes "readyAfter world = Some tr" and "tr < 5 * Second"
    and "\<forall>te e. errAfter world = Some (te, e) \<longrightarrow> tr < te"
  shows "selectWait world = (tr, ReadyCase)"
proof -
  obtain t c where s: "selectWait world = (t, c)" by (cases "selectWait world")
  from selectWait_cases(5)[OF s assms(1)] have le: "t \<le> tr" .
  from selectWait_chosen[OF s] have "(t, c) \<in> set (selectCandidates world)" by simp
  with le assms have "t = tr \<and> c = ReadyCase"
    by (fastforce simp: in_selectCandidates)
  with s show ?thesis by simp
qed

lemma selectWait_err_first:
  assumes "errAfter world = Some (te, e)" and "te < 5 * Second"
    and "\<forall>tr. readyAfter world = Some tr \<longrightarrow> te < tr"
  shows "selectWait world = (te, ErrCase e)"
proof -
  obtain t c where s: "selectWait world = (t, c)" by (cases "selectWait world")
  from selectWait_cases(6)[OF s assms(1)] have le: "t \<le> te" .
  from selectWait_chosen[OF s] have "(t, c) \<in> set (selectCandidates world)" by simp
  with le assms have "t = te \<and> c = ErrCase e"
    by (fastforce simp: in_selectCandidates)
  with s show ?thesis by simp
qed

lemma selectWait_timeout:
  assumes "\<forall>tr. readyAfter world = Some tr \<longrightarrow> 5 * Second < tr"
    and "\<forall>te e. errAfter world = Some (te, e) \<longrightarrow> 5 * Second < te"
  shows "selectWait world = (5 * Second, TimeoutCase)"
proof -
  obtain t c where s: "selectWait world = (t, c)" by (cases "selectWait world")
  from selectWait_chosen[OF s] have "(t, c) \<in> set (selectCandidates world)" "t \<le> 5 * Second"
    by simp_all
  with assms have "t = 5 * Second \<and> c = TimeoutCase"
    by (fastforce simp: in_selectCandidates)
  with s show ?thesis by simp
qed


text \<open>
  Claim C8. Once the forwarder exists and \<^verbatim>\<open>pf.ForwardPorts()\<close> runs in its goroutine, the
  \<^verbatim>\<open>select\<close> returns after at most five seconds with one of its three cases. It takes the
  ready case only when \<^verbatim>\<open>readyChan\<close> could be received from at that moment, and it does
  take it when that happens within five seconds and before \<^verbatim>\<open>errChan\<close> delivers; the
  session is then built on the first port that \<^verbatim>\<open>pf.GetPorts()\<close> reports, stored in the
  store and entered in both maps. It takes the error case when \<^verbatim>\<open>errChan\<close> delivers first:
  an error from the forwarding task fails the call with \<^verbatim>\<open>error al iniciar port-forward\<close>
  (TunnelSetupFailed), and a \<^verbatim>\<open>nil\<close>, which is no failure signal, continues like the ready
  case. It takes the timer case exactly at five seconds, not before, when no channel was
  ready earlier, and does take it when neither is ready by then; the call fails with
  \<^verbatim>\<open>timeout al iniciar port-forward\<close> (TunnelSetupTimeout). A failed call leaves the
  registry unchanged. \<^verbatim>\<open>getOrCreateSession\<close> runs this establishment on a registry miss.
\<close>

theorem establishment_outcomes:
  "fst (selectWait world) \<le> 5 * Second
   \<and> (snd (selectWait world) = ReadyCase \<longrightarrow> readyAfter world = Some (fst (selectWait world)))
   \<and> (snd (selectWait world) = ErrCase e \<longrightarrow> errAfter world = Some (fst (selectWait world), e))
   \<and> (snd (selectWait world) = TimeoutCase \<longrightarrow>
        fst (selectWait world) = 5 * Second
        \<and> (\<forall>t. readyAfter world = Some t \<longrightarrow> 5 * Second \<le> t)
        \<and> (\<forall>t e'. errAfter world = Some (t, e') \<longrightarrow> 5 * Second \<le> t))
   \<and> (readyAfter world = Some tr \<and> tr < 5 * Second
        \<and> (\<forall>t e'. errAfter world = Some (t, e') \<longrightarrow> tr < t) \<longrightarrow>
        selectWait world = (tr, ReadyCase))
   \<and> (errAfter world = Some (te, e) \<and> te < 5 * Second
        \<and> (\<forall>t. readyAfter world = Some t \<longrightarrow> te < t) \<longrightarrow>
        selectWait world = (te, ErrCase e))
   \<and> ((\<forall>t. readyAfter world = Some t \<longrightarrow> 5 * Second < t)
        \<and> (\<forall>t e'. errAfter world = Some (t, e') \<longrightarrow> 5 * Second < t) \<longrightarrow>
        selectWait world = (5 * Second, TimeoutCase))
   \<and> (podsGet world namespace pod = None \<and> roundTripperFor world = None
        \<and> portforwardNew world [''0:'' @ formatInt port] = Inr pf \<longrightarrow>
        ((snd (selectWait world) = ReadyCase \<or> snd (selectWait world) = ErrCase None)
           \<and> getPorts world = (p # ps, None) \<longrightarrow>
           establish world st sessionKey namespace pod port =
             (Inr (nextSession st),
              st\<lparr>sessions := (sessions st)
                     (nextSession st :=
                        \<lparr>Namespace = namespace, Pod = pod, Port = port,
                         LocalPort = uint (Local p), PF = Some pf,
                         LastUsed = nowSession world\<rparr>),
                 nextSession := Suc (nextSession st),
                 activeSessions := AList.update sessionKey (nextSession st) (activeSessions st),
                 localPortToSession := (localPortToSession st)(uint (Local p) \<mapsto> sessionKey)\<rparr>))
        \<and> (snd (selectWait world) = ErrCase (Some err) \<longrightarrow>
           establish world st sessionKey namespace pod port = (Inl (TunnelSetupFailed err), st))
        \<and> (snd (selectWait world) = TimeoutCase \<longrightarrow>
           establish world st sessionKey namespace pod port = (Inl TunnelSetupTimeout, st)))
   \<and> (map_of (activeSessions st) sessionKey = None \<longrightarrow>
        getOrCreateSession world st sessionKey namespace pod port =
          establish world st sessionKey namespace pod port)"
proof -
  obtain t c where s: "selectWait world = (t, c)" by (cases "selectWait world")
  note cs = selectWait_cases[OF s]
  have 1: "fst (selectWait world) \<le> 5 * Second" using cs(1) s by simp
  have 2: "snd (selectWait world) = ReadyCase \<longrightarrow> readyAfter world = Some (fst (selectWait world))"
    using cs(2) s by simp
  have 3: "snd (selectWait world) = ErrCase e \<longrightarrow> errAfter world = Some (fst (selectWait world), e)"
    using cs(3) s by simp
  have 4: "snd (selectWait world) = TimeoutCase \<longrightarrow>
        fst (selectWait world) = 5 * Second
        \<and> (\<forall>t. readyAfter world = Some t \<longrightarrow> 5 * Second \<le> t)
        \<and> (\<forall>t e'. errAfter world = Some (t, e') \<longrightarrow> 5 * Second \<le> t)"
    using cs(4) cs(5) cs(6) s by auto
  have 5: "readyAfter world = Some tr \<and> tr < 5 * Second
        \<and> (\<forall>t e'. errAfter world = Some (t, e') \<longrightarrow> tr < t) \<longrightarrow>
        selectWait world = (tr, ReadyCase)"
    using selectWait_ready_first[of world tr] by blast
  have 6: "errAfter world = Some (te, e) \<and> te < 5 * Second
        \<and> (\<forall>t. readyAfter world = Some t \<longrightarrow> te < t) \<longrightarrow>
        selectWait world = (te, ErrCase e)"
    using selectWait_err_first[of world te e] by blast
  have 7: "(\<forall>t. readyAfter world = Some t \<longrightarrow> 5 * Second < t)
        \<and> (\<forall>t e'. errAfter world = Some (t, e') \<longrightarrow> 5 * Second < t) \<longrightarrow>
        selectWait world = (5 * Second, TimeoutCase)"
    using selectWait_timeout[of world] by blast
  have 8: "podsGet world namespace pod = None \<and> roundTripperFor world = None
        \<and> portforwardNew world [''0:'' @ formatInt port] = Inr pf \<longrightarrow>
        ((snd (selectWait world) = ReadyCase \<or> snd (selectWait world) = ErrCase None)
           \<and> getPorts world = (p # ps, None) \<longrightarrow>
           establish world st sessionKey namespace pod port =
             (Inr (nextSession st),
              st\<lparr>sessions := (sessions st)
                     (nextSession st :=
                        \<lparr>Namespace = namespace, Pod = pod, Port = port,
                         LocalPort = uint (Local p), PF = Some pf,
                         LastUsed = nowSession world\<rparr>),
                 nextSession := Suc (nextSession st),
                 activeSessions := AList.update sessionKey (nextSession st) (activeSessions st),
                 localPortToSession := (localPortToSession st)(uint (Local p) \<mapsto> sessionKey)\<rparr>))
        \<and> (snd (selectWait world) = ErrCase (Some err) \<longrightarrow>
           establish world st sessionKey namespace pod port = (Inl (TunnelSetupFailed err), st))
        \<and> (snd (selectWait world) = TimeoutCase \<longrightarrow>
           establish world st sessionKey namespace pod port = (Inl TunnelSetupTimeout, st))"
    by (auto simp: establish_def openTunnel_def newSession_def Let_def)
  have 9: "map_of (activeSessions st) sessionKey = None \<longrightarrow>
        getOrCreateSession world st sessionKey namespace pod port =
          establish world st sessionKey namespace pod port"
    by (simp add: getOrCreateSession_def)
  from 1 2 3 4 5 6 7 8 9 show ?thesis by (intro conjI)
qed

theorem establishment_outcomes_witness:
  "selectWait exampleWorld = (1000, ReadyCase)
   \<and> readyAfter exampleWorld = Some (fst (selectWait exampleWorld))
   \<and> getOrCreateSession exampleWorld emptyRegistry ''ns/p:80'' ''ns'' ''p'' 80
       = establish exampleWorld emptyRegistry ''ns/p:80'' ''ns'' ''p'' 80
   \<and> fst (establish exampleWorld emptyRegistry ''ns/p:80'' ''ns'' ''p'' 80) = Inr 0
   \<and> LocalPort (sessions (snd (establish exampleWorld emptyRegistry ''ns/p:80'' ''ns'' ''p'' 80)) 0)
       = 40001
   \<and> activeSessions (snd (establish exampleWorld emptyRegistry ''ns/p:80'' ''ns'' ''p'' 80))
       = [(''ns/p:80'', 0)]
   \<and> selectWait (exampleWorld\<lparr>readyAfter := None,
          errAfter := Some (2000, Some ''error upgrading connection'')\<rparr>)
       = (2000, ErrCase (Some ''error upgrading connection''))
   \<and> errAfter (exampleWorld\<lparr>readyAfter := None,
          errAfter := Some (2000, Some ''error upgrading connection'')\<rparr>)
       = Some (fst (selectWait (exampleWorld\<lparr>readyAfter := None,
                 errAfter := Some (2000, Some ''error upgrading connection'')\<rparr>)),
               Some ''error upgrading connection'')
   \<and> establish (exampleWorld\<lparr>readyAfter := None,
          errAfter := Some (2000, Some ''error upgrading connection'')\<rparr>)
        emptyRegistry ''ns/p:80'' ''ns'' ''p'' 80
       = (Inl (TunnelSetupFailed ''error upgrading connection''), emptyRegistry)
   \<and> selectWait (exampleWorld\<lparr>readyAfter := Some (7 * Second)\<rparr>) = (5 * Second, TimeoutCase)
   \<and> fst (selectWait (exampleWorld\<lparr>readyAfter := Some (7 * Second)\<rparr>)) = 5 * Second
   \<and> establish (exampleWorld\<lparr>readyAfter := Some (7 * Second)\<rparr>)
        emptyRegistry ''ns/p:80'' ''ns'' ''p'' 80
       = (Inl TunnelSetupTimeout, emptyRegistry)"
proof -
  let ?errWorld = "exampleWorld\<lparr>readyAfter := None,
          errAfter := Some (2000, Some ''error upgrading connection'')\<rparr>"
  let ?slowWorld = "exampleWorld\<lparr>readyAfter := Some (7 * Second)\<rparr>"
  note E1 = establishment_outcomes[where world = exampleWorld and tr = 1000
            and namespace = "''ns''" and pod = "''p''" and port = 80 and pf = 7
            and p = "\<lparr>Local = 40001, Remote = 80\<rparr>" and ps = "[]"
            and st = emptyRegistry and sessionKey = "''ns/p:80''"]
  note E2 = establishment_outcomes[where world = ?errWorld and te = 2000
            and e = "Some ''error upgrading connection''"
            and namespace = "''ns''" and pod = "''p''" and port = 80 and pf = 7
            and err = "''error upgrading connection''"
            and st = emptyRegistry and sessionKey = "''ns/p:80''"]
  note E3 = establishment_outcomes[where world = ?slowWorld
            and namespace = "''ns''" and pod = "''p''" and port = 80 and pf = 7
            and st = emptyRegistry and sessionKey = "''ns/p:80''"]
  have r: "readyAfter exampleWorld = Some 1000 \<and> 1000 < 5 * Second
           \<and> (\<forall>t e'. errAfter exampleWorld = Some (t, e') \<longrightarrow> 1000 < t)"
    by (simp add: exampleWorld_def Second_def)
  have w1: "selectWait exampleWorld = (1000, ReadyCase)"
    by (rule E1[THEN conjunct2, THEN conjunct2, THEN conjunct2, THEN conjunct2, THEN conjunct1,
                THEN mp, OF r])
  have s1: "snd (selectWait exampleWorld) = ReadyCase" by (simp add: w1)
  have x1: "readyAfter exampleWorld = Some (fst (selectWait exampleWorld))"
    by (rule E1[THEN conjunct2, THEN conjunct1, THEN mp, OF s1])
  have miss: "map_of (activeSessions emptyRegistry) ''ns/p:80'' = None"
    by (simp add: emptyRegistry_def)
  have x2: "getOrCreateSession exampleWorld emptyRegistry ''ns/p:80'' ''ns'' ''p'' 80
       = establish exampleWorld emptyRegistry ''ns/p:80'' ''ns'' ''p'' 80"
    by (rule E1[THEN conjunct2, THEN conjunct2, THEN conjunct2, THEN conjunct2, THEN conjunct2,
                THEN conjunct2, THEN conjunct2, THEN conjunct2, THEN mp, OF miss])
  have g: "podsGet exampleWorld ''ns'' ''p'' = None \<and> roundTripperFor exampleWorld = None
           \<and> portforwardNew exampleWorld [''0:'' @ formatInt 80] = Inr 7"
    by (simp add: exampleWorld_def)
  have gp: "(snd (selectWait exampleWorld) = ReadyCase \<or> snd (selectWait exampleWorld) = ErrCase None)
            \<and> getPorts exampleWorld = (\<lparr>Local = 40001, Remote = 80\<rparr> # [], None)"
    by (simp add: w1) (simp add: exampleWorld_def)
  note e1 = E1[THEN conjunct2, THEN conjunct2, THEN conjunct2, THEN conjunct2, THEN conjunct2,
               THEN conjunct2, THEN conjunct2, THEN conjunct1, THEN mp, OF g,
               THEN conjunct1, THEN mp, OF gp]
  have a1: "fst (establish exampleWorld emptyRegistry ''ns/p:80'' ''ns'' ''p'' 80) = Inr 0"
    by (simp add: e1) (simp add: emptyRegistry_def)
  have a2: "LocalPort (sessions (snd (establish exampleWorld emptyRegistry ''ns/p:80'' ''ns'' ''p'' 80)) 0)
       = 40001"
    by (simp add: e1) (simp add: emptyRegistry_def)
  have a3: "activeSessions (snd (establish exampleWorld emptyRegistry ''ns/p:80'' ''ns'' ''p'' 80))
       = [(''ns/p:80'', 0)]"
    by (simp add: e1) (simp add: emptyRegistry_def)
  have re: "errAfter ?errWorld = Some (2000, Some ''error upgrading connection'')
            \<and> 2000 < 5 * Second \<and> (\<forall>t. readyAfter ?errWorld = Some t \<longrightarrow> 2000 < t)"
    by (simp add: Second_def)
  have w2: "selectWait ?errWorld = (2000, ErrCase (Some ''error upgrading connection''))"
    by (rule E2[THEN conjunct2, THEN conjunct2, THEN conjunct2, THEN conjunct2, THEN conjunct2,
                THEN conjunct1, THEN mp, OF re])
  have ge: "podsGet ?errWorld ''ns'' ''p'' = None \<and> roundTripperFor ?errWorld = None
           \<and> portforwardNew ?errWorld [''0:'' @ formatInt 80] = Inr 7"
    by (simp add: exampleWorld_def)
  have s2: "snd (selectWait ?errWorld) = ErrCase (Some ''error upgrading connection'')"
    by (simp add: w2)
  have x3: "errAfter ?errWorld
       = Some (fst (selectWait ?errWorld), Some ''error upgrading connection'')"
    by (rule E2[THEN conjunct2, THEN conjunct2, THEN conjunct1, THEN mp, OF s2])
  note e2 = E2[THEN conjunct2, THEN conjunct2, THEN conjunct2, THEN conjunct2, THEN conjunct2,
               THEN conjunct2, THEN conjunct2, THEN conjunct1, THEN mp, OF ge,
               THEN conjunct2, THEN conjunct1, THEN mp, OF s2]
  have rs: "(\<forall>t. readyAfter ?slowWorld = Some t \<longrightarrow> 5 * Second < t)
            \<and> (\<forall>t e'. errAfter ?slowWorld = Some (t, e') \<longrightarrow> 5 * Second < t)"
    by (simp add: exampleWorld_def Second_def)
  have w3: "selectWait ?slowWorld = (5 * Second, TimeoutCase)"
    by (rule E3[THEN conjunct2, THEN conjunct2, THEN conjunct2, THEN conjunct2, THEN conjunct2,
                THEN conjunct2, THEN conjunct1, THEN mp, OF rs])
  have gs: "podsGet ?slowWorld ''ns'' ''p'' = None \<and> roundTripperFor ?slowWorld = None
           \<and> portforwardNew ?slowWorld [''0:'' @ formatInt 80] = Inr 7"
    by (simp add: exampleWorld_def)
  have s3: "snd (selectWait ?slowWorld) = TimeoutCase"
    by (simp add: w3)
  have x4: "fst (selectWait ?slowWorld) = 5 * Second"
    using E3[THEN conjunct2, THEN conjunct2, THEN conjunct2, THEN conjunct1, THEN mp, OF s3]
    by (rule conjunct1)
  note e3 = E3[THEN conjunct2, THEN conjunct2, THEN conjunct2, THEN conjunct2, THEN conjunct2,
               THEN conjunct2, THEN conjunct2, THEN conjunct1, THEN mp, OF gs,
               THEN conjunct2, THEN conjunct2, THEN mp, OF s3]
  from w1 x1 x2 a1 a2 a3 w2 x3 e2 w3 x4 e3 show ?thesis
    by (intro conjI)
qed

section \<open>Two calls for one identity\<close>


lemma callStep_Returned:
  "(callStep world sessionKey namespace pod port ^^ n) (Returned result, st) = (Returned result, st)"
  by (induction n) (simp_all add: callStep_def)










end
